theory Spec2Isabelle
  imports Complex_Main "HOL-Library.AList"
begin

section \<open>Values, documents and the store\<close>

text \<open>
  The handlers of \<^verbatim>\<open>app.py\<close> read a parsed JSON request body and read and write four
  collections of a document store. A JSON value is modelled as it arrives in Python:
  \<open>None\<close> is \<open>JNull\<close>, an \<open>int\<close> is unbounded, a finite \<open>float\<close> is a real
  number, the other floats that \<^verbatim>\<open>json.loads\<close> reads (\<^verbatim>\<open>NaN\<close>, \<^verbatim>\<open>Infinity\<close>,
  \<^verbatim>\<open>-Infinity\<close>) are \<open>JNonFinite\<close>, a \<open>dict\<close> is an association list (lookup
  finds the first entry of a key), a \<open>list\<close> is a list.
\<close>

datatype nonfinite = NaN | Infinity | MinusInfinity

datatype json =
    JNull
  | JBool bool
  | JInt int
  | JFloat real
  | JNonFinite nonfinite
  | JStr string
  | JArr "json list"
  | JObj "(string \<times> json) list"

type_synonym fields = "(string \<times> json) list"

text \<open>Python's truth value of a JSON value, as \<^verbatim>\<open>not x\<close> and \<^verbatim>\<open>if x\<close> test it.\<close>

fun truthy :: "json \<Rightarrow> bool" where
  "truthy JNull = False"
| "truthy (JBool b) = b"
| "truthy (JInt n) = (n \<noteq> 0)"
| "truthy (JFloat x) = (x \<noteq> 0)"
| "truthy (JNonFinite x) = True"
| "truthy (JStr s) = (s \<noteq> [])"
| "truthy (JArr xs) = (xs \<noteq> [])"
| "truthy (JObj kvs) = (kvs \<noteq> [])"

text \<open>\<^verbatim>\<open>d.get(k)\<close> on a dict: the value of the key, \<open>None\<close> when the key is missing.\<close>

definition dict_get :: "fields \<Rightarrow> string \<Rightarrow> json" where
  "dict_get kvs k = (case map_of kvs k of None \<Rightarrow> JNull | Some v \<Rightarrow> v)"

text \<open>
  The exceptions that escape the handlers; nothing in \<^verbatim>\<open>app.py\<close> catches one.
  \<open>StoreError\<close> stands for every exception of \<^verbatim>\<open>bson\<close> and \<^verbatim>\<open>pymongo\<close>
  other than \<open>InvalidId\<close>: \<^verbatim>\<open>OverflowError\<close> for an integer outside 64 bits,
  \<^verbatim>\<open>InvalidDocument\<close>, \<^verbatim>\<open>DocumentTooLarge\<close>, \<^verbatim>\<open>OperationFailure\<close>.
\<close>

datatype error = AttributeError | TypeError | KeyError | ValueError | InvalidId | StoreError

text \<open>
  \<^verbatim>\<open>for item in items\<close>: a list yields its elements, a string its characters, a dict
  its keys; any other value is not iterable.
\<close>

fun py_iter :: "json \<Rightarrow> error + json list" where
  "py_iter (JArr xs) = Inr xs"
| "py_iter (JStr s) = Inr (map (\<lambda>c. JStr [c]) s)"
| "py_iter (JObj kvs) = Inr (map (\<lambda>kv. JStr (fst kv)) kvs)"
| "py_iter _ = Inl TypeError"

subsection \<open>Object ids\<close>

text \<open>
  \<^verbatim>\<open>bson.objectid.ObjectId(s)\<close> for a string \<open>s\<close>: the string must have 24 characters
  and be accepted by \<^verbatim>\<open>bytes.fromhex\<close>, which reads pairs of hexadecimal digits and
  skips ASCII whitespace between pairs; otherwise \<^verbatim>\<open>InvalidId\<close> is raised. An object
  id is kept as its lower-case hexadecimal digits, which is what \<^verbatim>\<open>str\<close> returns.
\<close>

datatype objectid = Oid string

definition is_hex :: "char \<Rightarrow> bool" where
  "is_hex c = (c \<in> set ''0123456789abcdefABCDEF'')"

definition is_space :: "char \<Rightarrow> bool" where
  "is_space c = (c \<in> {CHR '' '', CHR 0x09, CHR 0x0A, CHR 0x0B, CHR 0x0C, CHR 0x0D})"

definition hex_lower :: "char \<Rightarrow> char" where
  "hex_lower c = (case map_of (zip ''ABCDEF'' ''abcdef'') c of None \<Rightarrow> c | Some l \<Rightarrow> l)"

fun fromhex :: "string \<Rightarrow> string option" where
  "fromhex [] = Some []"
| "fromhex [c] = (if is_space c then Some [] else None)"
| "fromhex (c # d # cs) =
     (if is_space c then fromhex (d # cs)
      else if is_hex c \<and> is_hex d then map_option (\<lambda>r. hex_lower c # hex_lower d # r) (fromhex cs)
      else None)"

definition ObjectId :: "string \<Rightarrow> error + objectid" where
  "ObjectId s =
     (if length s = 24 then (case fromhex s of None \<Rightarrow> Inl InvalidId | Some h \<Rightarrow> Inr (Oid h))
      else Inl InvalidId)"

fun str_oid :: "objectid \<Rightarrow> string" where
  "str_oid (Oid h) = h"

subsection \<open>What the store takes and what a filter matches\<close>

text \<open>
  BSON holds an integer in at most 64 bits: encoding a filter or a document with an
  integer outside that range, at any depth, raises \<^verbatim>\<open>OverflowError\<close>.
\<close>

fun int64 :: "json \<Rightarrow> bool" where
  "int64 (JInt n) = (- (2 ^ 63) \<le> n \<and> n < 2 ^ 63)"
| "int64 (JArr xs) = (\<forall>x \<in> set xs. int64 x)"
| "int64 (JObj kvs) = (\<forall>kv \<in> set kvs. int64 (snd kv))"
| "int64 _ = True"

text \<open>
  A filter \<^verbatim>\<open>{k: v}\<close> whose value is a scalar matches a document whose field is equal
  to the value or is an array with an element equal to it; \<open>None\<close> also matches a
  document without the field. Numbers are equal by value, whether \<open>int\<close> or
  \<open>float\<close> (and \<^verbatim>\<open>NaN\<close> matches \<^verbatim>\<open>NaN\<close>); a boolean is not a number.
\<close>

fun scalar :: "json \<Rightarrow> bool" where
  "scalar (JArr xs) = False"
| "scalar (JObj kvs) = False"
| "scalar _ = True"

fun same_scalar :: "json \<Rightarrow> json \<Rightarrow> bool" where
  "same_scalar JNull JNull = True"
| "same_scalar (JBool a) (JBool b) = (a = b)"
| "same_scalar (JInt a) (JInt b) = (a = b)"
| "same_scalar (JInt a) (JFloat y) = (of_int a = y)"
| "same_scalar (JFloat x) (JInt b) = (x = of_int b)"
| "same_scalar (JFloat x) (JFloat y) = (x = y)"
| "same_scalar (JNonFinite x) (JNonFinite y) = (x = y)"
| "same_scalar (JStr s) (JStr t) = (s = t)"
| "same_scalar _ _ = False"

fun scalar_matches :: "json \<Rightarrow> json option \<Rightarrow> bool" where
  "scalar_matches v None = (v = JNull)"
| "scalar_matches v (Some (JArr ws)) = (\<exists>w \<in> set ws. same_scalar v w)"
| "scalar_matches v (Some w) = same_scalar v w"

text \<open>
  A stored document is its \<open>_id\<close> and its other fields; a collection is the list of
  its documents in the store's natural order.
\<close>

type_synonym doc = "objectid \<times> fields"

definition field_is :: "string \<Rightarrow> json \<Rightarrow> doc \<Rightarrow> bool" where
  "field_is k v d = scalar_matches v (map_of (snd d) k)"

definition id_is :: "objectid \<Rightarrow> doc \<Rightarrow> bool" where
  "id_is i d = (fst d = i)"

text \<open>
  What the store does with a value that a client chose is not all in this model: a
  filter value that is an object or an array is a query operator, an embedded document
  or an array to compare with, and the driver or the server may refuse a value (a key
  with a NUL character, a document over the size limit, an unknown operator, a field
  name that the server's version rejects). These behaviours are parameters:
  \<open>refuses_filter v\<close>, whether a filter with the value \<open>v\<close> raises;
  \<open>matches v w\<close>, for \<open>v\<close> an object or an array, whether a document whose field is
  \<open>w\<close> (\<open>None\<close>: no such field) matches; \<open>refuses_write fs hit\<close>, whether writing
  the fields \<open>fs\<close> raises (\<open>hit\<close>: there is a document to write them to);
  \<open>upsert_fields v\<close>, the fields that an upsert takes from a filter value that is an
  object or an array.
\<close>

record mongo =
  refuses_filter :: "json \<Rightarrow> bool"
  matches :: "json \<Rightarrow> json option \<Rightarrow> bool"
  refuses_write :: "fields \<Rightarrow> bool \<Rightarrow> bool"
  upsert_fields :: "json \<Rightarrow> fields"

definition filter_ok :: "mongo \<Rightarrow> json \<Rightarrow> bool" where
  "filter_ok m v = (int64 v \<and> \<not> refuses_filter m v)"

definition store_match :: "mongo \<Rightarrow> string \<Rightarrow> json \<Rightarrow> doc \<Rightarrow> bool" where
  "store_match m k v d =
     (if scalar v then field_is k v d else matches m v (map_of (snd d) k))"

text \<open>The predicate of the filter \<^verbatim>\<open>{k: v}\<close>, or the exception that the filter raises.\<close>

definition query :: "mongo \<Rightarrow> string \<Rightarrow> json \<Rightarrow> error + (doc \<Rightarrow> bool)" where
  "query m k v = (if filter_ok m v then Inr (store_match m k v) else Inl StoreError)"

definition writable :: "mongo \<Rightarrow> fields \<Rightarrow> bool \<Rightarrow> bool" where
  "writable m fs hit = (int64 (JObj fs) \<and> \<not> refuses_write m fs hit)"

subsection \<open>Collections\<close>

text \<open>The pymongo calls of the handlers, on a collection and the predicate of a filter.\<close>

definition find_one :: "(doc \<Rightarrow> bool) \<Rightarrow> doc list \<Rightarrow> doc option" where
  "find_one P ds = List.find P ds"

definition insert_one :: "doc \<Rightarrow> doc list \<Rightarrow> doc list" where
  "insert_one d ds = ds @ [d]"

text \<open>\<^verbatim>\<open>{'$set': {k1: v1, ...}}\<close>: each field is overwritten in place or added at the end.\<close>

definition set_fields :: "fields \<Rightarrow> fields \<Rightarrow> fields" where
  "set_fields upd fs = foldl (\<lambda>acc kv. AList.update (fst kv) (snd kv) acc) fs upd"

fun update_first :: "(doc \<Rightarrow> bool) \<Rightarrow> (fields \<Rightarrow> fields) \<Rightarrow> doc list \<Rightarrow> doc list" where
  "update_first P f [] = []"
| "update_first P f (d # ds) =
     (if P d then (fst d, f (snd d)) # ds else d # update_first P f ds)"

record update_result =
  matched_count :: nat
  modified_count :: nat

definition update_one ::
  "(doc \<Rightarrow> bool) \<Rightarrow> (fields \<Rightarrow> fields) \<Rightarrow> doc list \<Rightarrow> update_result \<times> doc list" where
  "update_one P f ds =
     (case find_one P ds of
        None \<Rightarrow> (\<lparr>matched_count = 0, modified_count = 0\<rparr>, ds)
      | Some d \<Rightarrow>
          (\<lparr>matched_count = 1, modified_count = (if f (snd d) = snd d then 0 else 1)\<rparr>,
           update_first P f ds))"

fun remove_first :: "(doc \<Rightarrow> bool) \<Rightarrow> doc list \<Rightarrow> doc list" where
  "remove_first P [] = []"
| "remove_first P (d # ds) = (if P d then ds else d # remove_first P ds)"

text \<open>\<^verbatim>\<open>delete_one\<close> returns its \<open>deleted_count\<close> with the collection.\<close>

definition delete_one :: "(doc \<Rightarrow> bool) \<Rightarrow> doc list \<Rightarrow> nat \<times> doc list" where
  "delete_one P ds =
     (case find_one P ds of None \<Rightarrow> (0, ds) | Some d \<Rightarrow> (1, remove_first P ds))"

definition delete_many :: "(doc \<Rightarrow> bool) \<Rightarrow> doc list \<Rightarrow> doc list" where
  "delete_many P ds = filter (\<lambda>d. \<not> P d) ds"

text \<open>
  \<^verbatim>\<open>update_one({k: v}, {'$set': upd})\<close> with a filter value and fields that a client
  chose: an integer outside 64 bits in either raises before anything is sent, a refused
  filter or refused fields raise, and otherwise the first match is updated.
\<close>

definition update_one_by ::
  "mongo \<Rightarrow> string \<Rightarrow> json \<Rightarrow> fields \<Rightarrow> doc list \<Rightarrow> error + (update_result \<times> doc list)" where
  "update_one_by m k v upd ds =
     (if \<not> int64 (JObj upd) then Inl StoreError
      else (case query m k v of
              Inl e \<Rightarrow> Inl e
            | Inr P \<Rightarrow>
                if refuses_write m upd (find_one P ds \<noteq> None) then Inl StoreError
                else Inr (update_one P (set_fields upd) ds)))"

text \<open>
  The state of the application: the four collections and the events broadcast so far
  through \<^verbatim>\<open>socketio.emit\<close>, oldest first (an event is its name and its payload).
\<close>

record state =
  users_collection :: "doc list"
  products_collection :: "doc list"
  orders_collection :: "doc list"
  cart_collection :: "doc list"
  emitted :: "(string \<times> json) list"

text \<open>
  A response is the pair the handler returns: the body given to \<^verbatim>\<open>jsonify\<close> and the
  status. A call ends with a response or with an exception that escapes, and in both
  cases with the state it leaves behind.
\<close>

type_synonym response = "json \<times> nat"

type_synonym 'a result = "(error \<times> state) + ('a \<times> state)"

definition final :: "'a result \<Rightarrow> state" where
  "final r = (case r of Inl (e, st) \<Rightarrow> st | Inr (x, st) \<Rightarrow> st)"

definition error_body :: "string \<Rightarrow> json" where
  "error_body m = JObj [(''error'', JStr m)]"

definition message_body :: "string \<Rightarrow> json" where
  "message_body m = JObj [(''message'', JStr m)]"

text \<open>A document as the listing handlers return it, \<open>_id\<close> replaced by its string.\<close>

definition with_id_str :: "doc \<Rightarrow> json" where
  "with_id_str d = JObj ((''_id'', JStr (str_oid (fst d))) # snd d)"

subsection \<open>Password hashes\<close>

text \<open>
  werkzeug's \<^verbatim>\<open>generate_password_hash\<close> and \<^verbatim>\<open>check_password_hash\<close>. Both call
  \<^verbatim>\<open>_hash_internal(method, salt, password)\<close>, which returns the digest and the name
  of the method in full, or raises for a method it does not know; it is a parameter, as
  is the default method. A password that is not a string raises (in current versions,
  \<^verbatim>\<open>AttributeError\<close> from \<^verbatim>\<open>password.encode\<close>). The hash is the text
  \<open>method$salt$digest\<close>; checking splits a hash at its first two dollar signs,
  answers false when there are fewer, and compares the digests with
  \<^verbatim>\<open>hmac.compare_digest\<close>, which raises \<^verbatim>\<open>TypeError\<close> for a string with a
  character outside ASCII.
\<close>

record werkzeug =
  hash_internal :: "string \<Rightarrow> string \<Rightarrow> string \<Rightarrow> error + (string \<times> string)"
  default_method :: string

definition generate_password_hash :: "werkzeug \<Rightarrow> string \<Rightarrow> json \<Rightarrow> error + string" where
  "generate_password_hash w salt password =
     (case password of
        JStr p \<Rightarrow>
          (case hash_internal w (default_method w) salt p of
             Inl e \<Rightarrow> Inl e
           | Inr (h, actual_method) \<Rightarrow> Inr (actual_method @ ''$'' @ salt @ ''$'' @ h))
      | _ \<Rightarrow> Inl AttributeError)"

fun split_at :: "char \<Rightarrow> string \<Rightarrow> (string \<times> string) option" where
  "split_at c [] = None"
| "split_at c (x # xs) =
     (if x = c then Some ([], xs)
      else map_option (\<lambda>ab. (x # fst ab, snd ab)) (split_at c xs))"

definition is_ascii :: "string \<Rightarrow> bool" where
  "is_ascii s = (\<forall>c \<in> set s. of_char c < (128 :: nat))"

definition split_hash :: "string \<Rightarrow> (string \<times> string \<times> string) option" where
  "split_hash pwhash =
     (case split_at (CHR ''$'') pwhash of
        None \<Rightarrow> None
      | Some (method, rest) \<Rightarrow>
          (case split_at (CHR ''$'') rest of
             None \<Rightarrow> None
           | Some (salt, hashval) \<Rightarrow> Some (method, salt, hashval)))"

definition check_password_hash :: "werkzeug \<Rightarrow> json \<Rightarrow> json \<Rightarrow> error + bool" where
  "check_password_hash w pwhash password =
     (case pwhash of
        JStr s \<Rightarrow>
          (case split_hash s of
             None \<Rightarrow> Inr False
           | Some (method, salt, hashval) \<Rightarrow>
               (case password of
                  JStr p \<Rightarrow>
                    (case hash_internal w method salt p of
                       Inl e \<Rightarrow> Inl e
                     | Inr (h, actual_method) \<Rightarrow>
                         if is_ascii h \<and> is_ascii hashval then Inr (h = hashval)
                         else Inl TypeError)
                | _ \<Rightarrow> Inl AttributeError))
      | _ \<Rightarrow> Inl AttributeError)"

section \<open>The handlers\<close>

text \<open>
  Each handler takes what Flask passes it (path parameters and the parsed body) and the
  state, and returns its response, or the exception that escapes it, with the state it
  leaves. What the environment supplies is a parameter: the behaviours of the store and
  of werkzeug described above, the salt that \<^verbatim>\<open>generate_password_hash\<close> draws, the id
  that the store gives an inserted document, the clock, and whether \<^verbatim>\<open>socketio.emit\<close>
  refuses the keyword \<^verbatim>\<open>broadcast\<close> (python-socketio has dropped it, and the call
  then raises \<^verbatim>\<open>TypeError\<close>).
\<close>

definition register ::
  "mongo \<Rightarrow> werkzeug \<Rightarrow> string \<Rightarrow> objectid \<Rightarrow> json \<Rightarrow> state \<Rightarrow> response result" where
  "register m w salt new_id data st =
     (case data of
        JObj kvs \<Rightarrow>
          (let name = dict_get kvs ''name'';
               email = dict_get kvs ''email'';
               password = dict_get kvs ''password''
           in if \<not> truthy name \<or> \<not> truthy email \<or> \<not> truthy password
              then Inr ((error_body ''Missing required fields'', 400), st)
              else (case query m ''email'' email of
                      Inl e \<Rightarrow> Inl (e, st)
                    | Inr P \<Rightarrow>
                        if find_one P (users_collection st) \<noteq> None
                        then Inr ((error_body ''Email already registered'', 400), st)
                        else (case generate_password_hash w salt password of
                                Inl e \<Rightarrow> Inl (e, st)
                              | Inr hashed_password \<Rightarrow>
                                  (let user = [(''name'', name), (''email'', email),
                                               (''password'', JStr hashed_password)]
                                   in if \<not> writable m user True then Inl (StoreError, st)
                                      else Inr ((message_body ''User registered successfully'', 201),
                                                st\<lparr>users_collection :=
                                                     insert_one (new_id, user)
                                                       (users_collection st)\<rparr>)))))
      | _ \<Rightarrow> Inl (AttributeError, st))"

definition login :: "mongo \<Rightarrow> werkzeug \<Rightarrow> json \<Rightarrow> state \<Rightarrow> response result" where
  "login m w data st =
     (case data of
        JObj kvs \<Rightarrow>
          (let email = dict_get kvs ''email'';
               password = dict_get kvs ''password''
           in if \<not> truthy email \<or> \<not> truthy password
              then Inr ((error_body ''Missing email or password'', 400), st)
              else (case query m ''email'' email of
                      Inl e \<Rightarrow> Inl (e, st)
                    | Inr P \<Rightarrow>
                        (case find_one P (users_collection st) of
                           None \<Rightarrow> Inr ((error_body ''Invalid email or password'', 401), st)
                         | Some user \<Rightarrow>
                             (case map_of (snd user) ''password'' of
                                None \<Rightarrow> Inl (KeyError, st)
                              | Some pwhash \<Rightarrow>
                                  (case check_password_hash w pwhash password of
                                     Inl e \<Rightarrow> Inl (e, st)
                                   | Inr ok \<Rightarrow>
                                       if \<not> ok
                                       then Inr ((error_body ''Invalid email or password'', 401),
                                                 st)
                                       else (case map_of (snd user) ''name'' of
                                               None \<Rightarrow> Inl (KeyError, st)
                                             | Some name \<Rightarrow>
                                                 Inr ((JObj [(''message'',
                                                              JStr ''Login successful''),
                                                             (''name'', name)], 200), st)))))))
      | _ \<Rightarrow> Inl (AttributeError, st))"

definition get_products :: "state \<Rightarrow> response result" where
  "get_products st = Inr ((JArr (map (\<lambda>d. JObj (snd d)) (products_collection st)), 200), st)"

text \<open>
  The route converter \<^verbatim>\<open><int:product_id>\<close> accepts unsigned decimal numbers of any
  length. The product is written before the event is emitted.
\<close>

definition update_stock :: "mongo \<Rightarrow> bool \<Rightarrow> nat \<Rightarrow> json \<Rightarrow> state \<Rightarrow> response result" where
  "update_stock m emit_raises product_id data st =
     (case data of
        JObj kvs \<Rightarrow>
          (let new_stock = dict_get kvs ''stock''
           in if new_stock = JNull
              then Inr ((error_body ''Missing stock value'', 400), st)
              else (case update_one_by m ''id'' (JInt (int product_id)) [(''stock'', new_stock)]
                           (products_collection st) of
                      Inl e \<Rightarrow> Inl (e, st)
                    | Inr (result, ps) \<Rightarrow>
                        (let st1 = st\<lparr>products_collection := ps\<rparr>
                         in if matched_count result = 0
                            then Inr ((error_body ''Product not found'', 404), st1)
                            else if emit_raises then Inl (TypeError, st1)
                            else Inr ((message_body ''Stock updated'', 200),
                                      st1\<lparr>emitted := emitted st1 @
                                            [(''stock_update'',
                                              JObj [(''product_id'', JInt (int product_id)),
                                                    (''stock'', new_stock)])]\<rparr>))))
      | _ \<Rightarrow> Inl (AttributeError, st))"

text \<open>The body of the loop of \<^verbatim>\<open>create_order\<close>, for one item.\<close>

fun enrich_item :: "mongo \<Rightarrow> doc list \<Rightarrow> json \<Rightarrow> error + json" where
  "enrich_item m ps (JObj item) =
     (case query m ''id'' (dict_get item ''id'') of
        Inl e \<Rightarrow> Inl e
      | Inr P \<Rightarrow>
          Inr (JObj (AList.update ''image''
                      (case find_one P ps of
                         None \<Rightarrow> JStr ''''
                       | Some product \<Rightarrow> (case map_of (snd product) ''image'' of
                                          None \<Rightarrow> JStr ''''
                                        | Some img \<Rightarrow> img))
                      item)))"
| "enrich_item m ps _ = Inl AttributeError"

fun enrich_loop :: "mongo \<Rightarrow> doc list \<Rightarrow> json list \<Rightarrow> json list \<Rightarrow> error + json list" where
  "enrich_loop m ps [] enriched_items = Inr enriched_items"
| "enrich_loop m ps (item # rest) enriched_items =
     (case enrich_item m ps item of
        Inl e \<Rightarrow> Inl e
      | Inr item' \<Rightarrow> enrich_loop m ps rest (enriched_items @ [item']))"

text \<open>The order document that \<^verbatim>\<open>create_order\<close> builds.\<close>

definition order_doc :: "fields \<Rightarrow> json list \<Rightarrow> string \<Rightarrow> fields" where
  "order_doc kvs enriched_items utcnow_isoformat =
     [(''user_email'', dict_get kvs ''user_email''),
      (''items'', JArr enriched_items),
      (''city'', dict_get kvs ''city''),
      (''pincode'', dict_get kvs ''pincode''),
      (''total_price'', dict_get kvs ''total_price''),
      (''status'', JStr ''Pending''),
      (''order_date'', JStr utcnow_isoformat),
      (''cancellationRequested'', JBool False)]"

text \<open>The condition under which \<^verbatim>\<open>create_order\<close> answers that fields are missing.\<close>

definition order_fields_missing :: "fields \<Rightarrow> bool" where
  "order_fields_missing kvs \<longleftrightarrow>
     \<not> truthy (dict_get kvs ''user_email'') \<or> \<not> truthy (dict_get kvs ''items'')
     \<or> \<not> truthy (dict_get kvs ''city'') \<or> \<not> truthy (dict_get kvs ''pincode'')
     \<or> dict_get kvs ''total_price'' = JNull"

definition create_order :: "mongo \<Rightarrow> string \<Rightarrow> objectid \<Rightarrow> json \<Rightarrow> state \<Rightarrow> response result" where
  "create_order m utcnow_isoformat new_id data st =
     (case data of
        JObj kvs \<Rightarrow>
          if order_fields_missing kvs
          then Inr ((error_body ''Missing required order fields'', 400), st)
          else (case py_iter (dict_get kvs ''items'') of
                  Inl e \<Rightarrow> Inl (e, st)
                | Inr its \<Rightarrow>
                    (case enrich_loop m (products_collection st) its [] of
                       Inl e \<Rightarrow> Inl (e, st)
                     | Inr enriched_items \<Rightarrow>
                         (let order = order_doc kvs enriched_items utcnow_isoformat
                          in if \<not> writable m order True then Inl (StoreError, st)
                             else Inr ((message_body ''Order placed successfully'', 201),
                                       st\<lparr>orders_collection :=
                                            insert_one (new_id, order)
                                              (orders_collection st)\<rparr>))))
      | _ \<Rightarrow> Inl (AttributeError, st))"

text \<open>A filter value from the path is a string: a scalar that the store takes.\<close>

definition get_orders :: "string \<Rightarrow> state \<Rightarrow> response result" where
  "get_orders user_email st =
     Inr ((JArr (map with_id_str
                   (filter (field_is ''user_email'' (JStr user_email)) (orders_collection st))),
           200), st)"

definition request_cancellation :: "string \<Rightarrow> state \<Rightarrow> response result" where
  "request_cancellation order_id st =
     (case ObjectId order_id of
        Inl e \<Rightarrow> Inl (e, st)
      | Inr oid \<Rightarrow>
          (let (result, os) =
                 update_one (id_is oid) (set_fields [(''cancellationRequested'', JBool True)])
                   (orders_collection st);
               st1 = st\<lparr>orders_collection := os\<rparr>
           in if matched_count result = 0
              then Inr ((error_body ''Order not found'', 404), st1)
              else Inr ((message_body ''Cancellation requested successfully'', 200), st1)))"

text \<open>An inclusion projection keeps the listed fields (and \<open>_id\<close>).\<close>

definition project :: "string list \<Rightarrow> doc \<Rightarrow> doc" where
  "project ks d = (fst d, filter (\<lambda>kv. fst kv \<in> set ks) (snd d))"

text \<open>The fields that the projection of \<^verbatim>\<open>admin_get_orders\<close> lists beside \<open>_id\<close>.\<close>

definition admin_order_fields :: "string list" where
  "admin_order_fields = [''user_email'', ''items'', ''city'', ''pincode'', ''total_price'',
                         ''status'', ''order_date'', ''cancellationRequested'']"

definition admin_get_orders :: "state \<Rightarrow> response result" where
  "admin_get_orders st =
     Inr ((JArr (map (\<lambda>d. with_id_str (project admin_order_fields d)) (orders_collection st)),
           200), st)"

definition admin_update_order_status ::
  "mongo \<Rightarrow> string \<Rightarrow> json \<Rightarrow> state \<Rightarrow> response result" where
  "admin_update_order_status m order_id data st =
     (case data of
        JObj kvs \<Rightarrow>
          (let new_status = dict_get kvs ''status''
           in if \<not> truthy new_status
              then Inr ((error_body ''Missing status'', 400), st)
              else (case ObjectId order_id of
                      Inl e \<Rightarrow> Inl (e, st)
                    | Inr oid \<Rightarrow>
                        if \<not> writable m [(''status'', new_status)]
                                (find_one (id_is oid) (orders_collection st) \<noteq> None)
                        then Inl (StoreError, st)
                        else (let (result, os) =
                                    update_one (id_is oid) (set_fields [(''status'', new_status)])
                                      (orders_collection st);
                                  st1 = st\<lparr>orders_collection := os\<rparr>
                              in if matched_count result = 0
                                 then Inr ((error_body ''Order not found'', 404), st1)
                                 else Inr ((message_body ''Order status updated successfully'',
                                            200), st1))))
      | _ \<Rightarrow> Inl (AttributeError, st))"

text \<open>
  \<^verbatim>\<open>find_one\<close> with the projection \<^verbatim>\<open>{'_id': 0}\<close> returns the fields without the id;
  \<^verbatim>\<open>if cart\<close> is false for no document and for an empty dict.
\<close>

definition get_cart :: "string \<Rightarrow> state \<Rightarrow> response result" where
  "get_cart user_email st =
     (case find_one (field_is ''user_email'' (JStr user_email)) (cart_collection st) of
        None \<Rightarrow> Inr ((JArr [], 200), st)
      | Some d \<Rightarrow>
          (let cart = snd d
           in if cart \<noteq> []
              then Inr (((case map_of cart ''items'' of None \<Rightarrow> JArr [] | Some v \<Rightarrow> v), 200), st)
              else Inr ((JArr [], 200), st)))"

text \<open>
  \<^verbatim>\<open>update_one\<close> with \<^verbatim>\<open>upsert=True\<close>: when no document matches, a document with the
  fields that the filter gives and the fields set is inserted.
\<close>

definition save_cart :: "mongo \<Rightarrow> objectid \<Rightarrow> json \<Rightarrow> state \<Rightarrow> response result" where
  "save_cart m new_id data st =
     (case data of
        JObj kvs \<Rightarrow>
          (let user_email = dict_get kvs ''user_email'';
               items = dict_get kvs ''items''
           in if \<not> truthy user_email \<or> items = JNull
              then Inr ((error_body ''Missing user_email or items'', 400), st)
              else if \<not> writable m [(''items'', items)] True then Inl (StoreError, st)
              else (case query m ''user_email'' user_email of
                      Inl e \<Rightarrow> Inl (e, st)
                    | Inr P \<Rightarrow>
                        (let (result, cs) =
                               update_one P (set_fields [(''items'', items)]) (cart_collection st);
                             cs1 = (if matched_count result = 0
                                    then insert_one
                                           (new_id,
                                            set_fields [(''items'', items)]
                                              (if scalar user_email
                                               then [(''user_email'', user_email)]
                                               else upsert_fields m user_email)) cs
                                    else cs)
                         in Inr ((message_body ''Cart saved successfully'', 200),
                                 st\<lparr>cart_collection := cs1\<rparr>))))
      | _ \<Rightarrow> Inl (AttributeError, st))"

definition admin_get_users :: "state \<Rightarrow> response result" where
  "admin_get_users st =
     Inr ((JArr (map (\<lambda>d. with_id_str (fst d, filter (\<lambda>kv. fst kv \<noteq> ''password'') (snd d)))
                   (users_collection st)),
           200), st)"

text \<open>
  The filter of \<^verbatim>\<open>delete_many\<close> holds the email that is stored for the user. The
  store takes a scalar that it has stored; a stored email that is an object or an array
  is a filter value like any other. The user is deleted before the orders are.
\<close>

definition stored_query :: "mongo \<Rightarrow> string \<Rightarrow> json \<Rightarrow> error + (doc \<Rightarrow> bool)" where
  "stored_query m k v = (if scalar v then Inr (field_is k v) else query m k v)"

definition admin_delete_user :: "mongo \<Rightarrow> string \<Rightarrow> state \<Rightarrow> response result" where
  "admin_delete_user m user_id st =
     (case ObjectId user_id of
        Inl e \<Rightarrow> Inl (e, st)
      | Inr oid \<Rightarrow>
          (case find_one (id_is oid) (users_collection st) of
             None \<Rightarrow> Inr ((error_body ''User not found'', 404), st)
           | Some user \<Rightarrow>
               (let user_email = dict_get (snd user) ''email'';
                    (deleted_count, us) = delete_one (id_is oid) (users_collection st);
                    st1 = st\<lparr>users_collection := us\<rparr>
                in if deleted_count = 0
                   then Inr ((error_body ''User not found'', 404), st1)
                   else (case stored_query m ''user_email'' user_email of
                           Inl e \<Rightarrow> Inl (e, st1)
                         | Inr P \<Rightarrow>
                             Inr ((message_body ''User and their orders removed successfully'',
                                   200),
                                  st1\<lparr>orders_collection :=
                                        delete_many P (orders_collection st1)\<rparr>)))))"

definition update_admin_credentials ::
  "mongo \<Rightarrow> werkzeug \<Rightarrow> string \<Rightarrow> json \<Rightarrow> state \<Rightarrow> response result" where
  "update_admin_credentials m w salt data st =
     (case data of
        JObj kvs \<Rightarrow>
          (let current_email = dict_get kvs ''current_email'';
               new_email = dict_get kvs ''new_email'';
               new_password = dict_get kvs ''new_password''
           in if \<not> truthy current_email \<or> \<not> truthy new_email \<or> \<not> truthy new_password
              then Inr ((error_body ''Missing required fields'', 400), st)
              else (case query m ''email'' current_email of
                      Inl e \<Rightarrow> Inl (e, st)
                    | Inr P \<Rightarrow>
                        if find_one P (users_collection st) = None
                        then Inr ((error_body ''Admin user not found'', 404), st)
                        else (case generate_password_hash w salt new_password of
                                Inl e \<Rightarrow> Inl (e, st)
                              | Inr hashed_password \<Rightarrow>
                                  (case update_one_by m ''email'' current_email
                                          [(''email'', new_email),
                                           (''password'', JStr hashed_password)]
                                          (users_collection st) of
                                     Inl e \<Rightarrow> Inl (e, st)
                                   | Inr (update_result, us) \<Rightarrow>
                                       (let st1 = st\<lparr>users_collection := us\<rparr>
                                        in if modified_count update_result = 0
                                           then Inr ((error_body
                                                        ''Failed to update admin credentials'',
                                                      500), st1)
                                           else Inr ((message_body
                                                        ''Admin credentials updated successfully'',
                                                      200), st1))))))
      | _ \<Rightarrow> Inl (AttributeError, st))"

subsection \<open>The requests that are answered\<close>









subsection \<open>Requests\<close>

text \<open>
  A request names a route and carries its path parameter and parsed body. The
  environment of one request is what the handler draws from outside the state.
\<close>

datatype request =
    Register json
  | Login json
  | GetProducts
  | UpdateStock nat json
  | CreateOrder json
  | GetOrders string
  | RequestCancellation string
  | AdminGetOrders
  | AdminUpdateOrderStatus string json
  | GetCart string
  | SaveCart json
  | AdminGetUsers
  | AdminDeleteUser string
  | UpdateAdminCredentials json

record env =
  store :: mongo
  hasher :: werkzeug
  salt :: string
  emit_raises :: bool
  utcnow_isoformat :: string
  new_id :: objectid

fun handle :: "env \<Rightarrow> request \<Rightarrow> state \<Rightarrow> response result" where
  "handle e (Register data) st = register (store e) (hasher e) (salt e) (new_id e) data st"
| "handle e (Login data) st = login (store e) (hasher e) data st"
| "handle e GetProducts st = get_products st"
| "handle e (UpdateStock product_id data) st =
     update_stock (store e) (emit_raises e) product_id data st"
| "handle e (CreateOrder data) st =
     create_order (store e) (utcnow_isoformat e) (new_id e) data st"
| "handle e (GetOrders user_email) st = get_orders user_email st"
| "handle e (RequestCancellation order_id) st = request_cancellation order_id st"
| "handle e AdminGetOrders st = admin_get_orders st"
| "handle e (AdminUpdateOrderStatus order_id data) st =
     admin_update_order_status (store e) order_id data st"
| "handle e (GetCart user_email) st = get_cart user_email st"
| "handle e (SaveCart data) st = save_cart (store e) (new_id e) data st"
| "handle e AdminGetUsers st = admin_get_users st"
| "handle e (AdminDeleteUser user_id) st = admin_delete_user (store e) user_id st"
| "handle e (UpdateAdminCredentials data) st =
     update_admin_credentials (store e) (hasher e) (salt e) data st"

text \<open>
  A sequence of requests, each with its environment, run from a state: each request
  starts from the state that the one before left, whether it answered or raised.
\<close>

fun run :: "(env \<times> request) list \<Rightarrow> state \<Rightarrow> state" where
  "run [] st = st"
| "run ((e, r) # rest) st = run rest (final (handle e r st))"

text \<open>Shorthands for the statements below.\<close>

abbreviation cancellation_requested :: "doc \<Rightarrow> bool" where
  "cancellation_requested d \<equiv> dict_get (snd d) ''cancellationRequested'' = JBool True"



subsection \<open>A small store\<close>

text \<open>
  Stand-ins for the parameters, to run the handlers. The store refuses nothing beyond
  integers outside 64 bits and knows one operator, \<^verbatim>\<open>{"$ne": null}\<close>, which matches a
  field that is present and not null. The hash function knows one method and joins the
  salt and the password.
\<close>

definition ex_mongo :: mongo where
  "ex_mongo = \<lparr>refuses_filter = (\<lambda>v. False),
               matches = (\<lambda>v w. v = JObj [(''$ne'', JNull)] \<and> w \<noteq> None \<and> w \<noteq> Some JNull),
               refuses_write = (\<lambda>fs hit. False),
               upsert_fields = (\<lambda>v. [])\<rparr>"

definition ex_werkzeug :: werkzeug where
  "ex_werkzeug =
     \<lparr>hash_internal = (\<lambda>method salt p. if method = ''demo''
                                         then Inr (''digest-'' @ salt @ ''-'' @ p, ''demo'')
                                         else Inl ValueError),
      default_method = ''demo''\<rparr>"

text \<open>Two users, two products, two orders and one cart.\<close>

definition ex_ann :: doc where
  "ex_ann = (Oid ''0000000000000000000000a1'',
             [(''name'', JStr ''Ann''), (''email'', JStr ''ann@shop.test''),
              (''password'', JStr ''demo$s1$digest-s1-ann'')])"

definition ex_bob :: doc where
  "ex_bob = (Oid ''0000000000000000000000a2'',
             [(''name'', JStr ''Bob''), (''email'', JStr ''bob@shop.test''),
              (''password'', JStr ''demo$s2$digest-s2-bob'')])"

definition ex_pen :: doc where
  "ex_pen = (Oid ''0000000000000000000000b1'',
             [(''id'', JInt 1), (''name'', JStr ''Pen''), (''price'', JFloat 2.5),
              (''stock'', JInt 10), (''image'', JStr ''img.png'')])"

definition ex_mug :: doc where
  "ex_mug = (Oid ''0000000000000000000000b2'',
             [(''id'', JInt 42), (''name'', JStr ''Mug''), (''price'', JInt 5),
              (''stock'', JInt 3)])"

definition ex_order_ann :: doc where
  "ex_order_ann = (Oid ''0000000000000000000000c1'',
                   [(''user_email'', JStr ''ann@shop.test''),
                    (''items'', JArr [JObj [(''id'', JInt 1), (''quantity'', JInt 2),
                                           (''image'', JStr ''img.png'')]]),
                    (''city'', JStr ''Pune''), (''pincode'', JStr ''411001''),
                    (''total_price'', JInt 5), (''status'', JStr ''Pending''),
                    (''order_date'', JStr ''2024-01-01T10:00:00''),
                    (''cancellationRequested'', JBool False)])"

definition ex_order_bob :: doc where
  "ex_order_bob = (Oid ''0000000000000000000000c2'',
                   [(''user_email'', JStr ''bob@shop.test''),
                    (''items'', JArr [JObj [(''id'', JInt 42), (''quantity'', JInt 1),
                                           (''image'', JStr [])]]),
                    (''city'', JStr ''Goa''), (''pincode'', JStr ''403001''),
                    (''total_price'', JInt 5), (''status'', JStr ''Shipped''),
                    (''order_date'', JStr ''2024-01-02T09:30:00''),
                    (''cancellationRequested'', JBool True)])"

definition ex_cart_ann :: doc where
  "ex_cart_ann = (Oid ''0000000000000000000000d1'',
                  [(''user_email'', JStr ''ann@shop.test''),
                   (''items'', JArr [JObj [(''id'', JInt 42), (''quantity'', JInt 1)]])])"

definition ex_state :: state where
  "ex_state = \<lparr>users_collection = [ex_ann, ex_bob],
               products_collection = [ex_pen, ex_mug],
               orders_collection = [ex_order_ann, ex_order_bob],
               cart_collection = [ex_cart_ann],
               emitted = []\<rparr>"


definition ex_env :: env where
  "ex_env = \<lparr>store = ex_mongo, hasher = ex_werkzeug, salt = ''s9'', emit_raises = False,
             utcnow_isoformat = ''2024-03-01T12:00:00'',
             new_id = Oid ''0000000000000000000000c3''\<rparr>"

text \<open>Bodies for the handlers.\<close>

definition ex_save :: "string \<Rightarrow> json \<Rightarrow> fields" where
  "ex_save email items = [(''user_email'', JStr email), (''items'', items)]"



definition ex_order_body :: "json \<Rightarrow> json \<Rightarrow> json \<Rightarrow> fields" where
  "ex_order_body items pincode total_price =
     [(''user_email'', JStr ''ann@shop.test''), (''items'', items), (''city'', JStr ''Pune''),
      (''pincode'', pincode), (''total_price'', total_price)]"

text \<open>Items for the pen (which has an image), the mug (which has none) and an unknown product.\<close>

definition ex_items :: "json list" where
  "ex_items = [JObj [(''id'', JInt 1), (''quantity'', JInt 2)],
               JObj [(''id'', JInt 42), (''quantity'', JInt 1)],
               JObj [(''id'', JInt 99), (''quantity'', JInt 1)]]"

text \<open>The small store after Ann has ordered \<open>ex_items\<close>.\<close>

definition ex_created :: state where
  "ex_created = ex_state\<lparr>orders_collection :=
     [ex_order_ann, ex_order_bob,
      (Oid ''0000000000000000000000c3'',
       [(''user_email'', JStr ''ann@shop.test''),
        (''items'', JArr [JObj [(''id'', JInt 1), (''quantity'', JInt 2),
                               (''image'', JStr ''img.png'')],
                         JObj [(''id'', JInt 42), (''quantity'', JInt 1), (''image'', JStr [])],
                         JObj [(''id'', JInt 99), (''quantity'', JInt 1), (''image'', JStr [])]]),
        (''city'', JStr ''Pune''), (''pincode'', JStr ''411001''),
        (''total_price'', JFloat 9.99), (''status'', JStr ''Pending''),
        (''order_date'', JStr ''2024-03-01T12:00:00''),
        (''cancellationRequested'', JBool False)])]\<rparr>"

text \<open>
  A sequence of requests on the small store: Bob's order is marked delivered, Ann places
  an order, asks to cancel her first one, and is deleted.
\<close>

definition ex_steps :: "(env \<times> request) list" where
  "ex_steps =
     [(ex_env, AdminUpdateOrderStatus ''0000000000000000000000c2''
                 (JObj [(''status'', JStr ''Delivered'')])),
      (ex_env, CreateOrder (JObj (ex_order_body (JArr ex_items) (JStr ''411001'') (JInt 9)))),
      (ex_env, RequestCancellation ''0000000000000000000000c1''),
      (ex_env, AdminDeleteUser ''0000000000000000000000a1'')]"

section \<open>Facts about the store primitives\<close>

lemmas ex_defs = ex_state_def ex_ann_def ex_bob_def ex_pen_def ex_mug_def ex_order_ann_def
  ex_order_bob_def ex_cart_ann_def

lemmas ex_store_defs = ex_mongo_def query_def filter_ok_def writable_def store_match_def
  field_is_def

lemmas oid_defs = ObjectId_def is_hex_def is_space_def hex_lower_def

lemma same_scalar_refl: "scalar v \<Longrightarrow> same_scalar v v"
  by (cases v) simp_all

lemma field_is_stored: "scalar v \<Longrightarrow> dict_get (snd d) k = v \<Longrightarrow> field_is k v d"
  by (cases v) (auto simp: field_is_def dict_get_def split: option.splits)

lemma find_one_None_iff: "find_one P ds = None \<longleftrightarrow> (\<forall>d \<in> set ds. \<not> P d)"
  by (auto simp: find_one_def find_None_iff)

text \<open>The document found is the first one that matches.\<close>

lemma find_one_split:
  "find_one P ds = Some d \<Longrightarrow>
     \<exists>xs ys. ds = xs @ d # ys \<and> P d \<and> (\<forall>x \<in> set xs. \<not> P x)"
  unfolding find_one_def
proof (induction ds)
  case Nil
  then show ?case by simp
next
  case (Cons a ds)
  show ?case
  proof (cases "P a")
    case True
    with Cons.prems have "a = d" by simp
    with True show ?thesis by (intro exI[of _ "[]"] exI[of _ ds]) auto
  next
    case False
    with Cons.prems have "List.find P ds = Some d" by simp
    from Cons.IH[OF this] obtain xs ys where
      "ds = xs @ d # ys" "P d" "\<forall>x \<in> set xs. \<not> P x" by blast
    with False show ?thesis by (intro exI[of _ "a # xs"] exI[of _ ys]) auto
  qed
qed

lemma find_one_append_match:
  "\<forall>x \<in> set xs. \<not> P x \<Longrightarrow> P d \<Longrightarrow> find_one P (xs @ d # ys) = Some d"
  by (induction xs) (auto simp: find_one_def)

lemma update_first_split:
  "\<forall>x \<in> set xs. \<not> P x \<Longrightarrow> P d \<Longrightarrow>
     update_first P f (xs @ d # ys) = xs @ (fst d, f (snd d)) # ys"
  by (induction xs) auto

lemma remove_first_split:
  "\<forall>x \<in> set xs. \<not> P x \<Longrightarrow> P d \<Longrightarrow> remove_first P (xs @ d # ys) = xs @ ys"
  by (induction xs) auto

lemma update_first_mem:
  "d' \<in> set (update_first P f ds) \<Longrightarrow>
     d' \<in> set ds \<or> (\<exists>d \<in> set ds. d' = (fst d, f (snd d)))"
  by (induction ds) (auto split: if_splits)

lemma update_one_cases:
  "update_one P f ds = (r, ds') \<Longrightarrow>
     (matched_count r = 0 \<and> ds' = ds) \<or> (matched_count r = 1 \<and> ds' = update_first P f ds)"
  by (auto simp: update_one_def split: option.splits)

lemma update_one_mem:
  "update_one P f ds = (r, ds') \<Longrightarrow> d' \<in> set ds' \<Longrightarrow>
     d' \<in> set ds \<or> (\<exists>d \<in> set ds. d' = (fst d, f (snd d)))"
  using update_one_cases[of P f ds r ds'] update_first_mem[of d' P f ds] by auto

lemma update_one_found:
  assumes "\<forall>x \<in> set xs. \<not> P x" and "P d"
  shows "update_one P f (xs @ d # ys) =
           (\<lparr>matched_count = 1, modified_count = (if f (snd d) = snd d then 0 else 1)\<rparr>,
            xs @ (fst d, f (snd d)) # ys)"
  using find_one_append_match[OF assms] update_first_split[OF assms]
  by (simp add: update_one_def)

lemma update_one_none:
  "find_one P ds = None \<Longrightarrow> update_one P f ds = (\<lparr>matched_count = 0, modified_count = 0\<rparr>, ds)"
  by (simp add: update_one_def)

lemma set_fields_single: "set_fields [(k, v)] fs = AList.update k v fs"
  by (simp add: set_fields_def)

lemma dict_get_update_same: "dict_get (AList.update k v fs) k = v"
  by (simp add: dict_get_def update_conv')

lemma dict_get_update_other: "k' \<noteq> k \<Longrightarrow> dict_get (AList.update k v fs) k' = dict_get fs k'"
  by (simp add: dict_get_def update_conv')

lemma store_match_update_other:
  "k' \<noteq> k \<Longrightarrow> store_match m k' v (i, AList.update k w fs) = store_match m k' v (i, fs)"
  by (simp add: store_match_def field_is_def update_conv')

lemma map_of_project:
  "k \<in> set ks \<Longrightarrow> map_of (filter (\<lambda>kv. fst kv \<in> set ks) fs) k = map_of fs k"
  by (induction fs) auto

lemma with_id_str_project:
  "k \<in> set ks \<Longrightarrow> k \<noteq> ''_id'' \<Longrightarrow> with_id_str (project ks d) = JObj fs \<Longrightarrow>
     map_of fs k = map_of (snd d) k"
  by (auto simp: with_id_str_def project_def map_of_project)

lemma query_ok: "filter_ok m v \<Longrightarrow> query m k v = Inr (store_match m k v)"
  by (simp add: query_def)


lemma store_match_scalar: "scalar v \<Longrightarrow> store_match m k v = field_is k v"
  by (rule ext) (simp add: store_match_def)

lemma update_one_by_scalar:
  assumes "scalar v" and "filter_ok m v"
      and "writable m upd (find_one (field_is k v) ds \<noteq> None)"
  shows "update_one_by m k v upd ds = Inr (update_one (field_is k v) (set_fields upd) ds)"
  using assms by (simp add: update_one_by_def query_ok store_match_scalar writable_def)

lemma query_scalar: "scalar v \<Longrightarrow> filter_ok m v \<Longrightarrow> query m k v = Inr (field_is k v)"
  by (simp add: query_ok store_match_scalar)

lemma ex_filter_ok: "filter_ok ex_mongo v = int64 v"
  by (simp add: filter_ok_def ex_mongo_def)

lemma ex_writable: "writable ex_mongo fs hit = int64 (JObj fs)"
  by (simp add: writable_def ex_mongo_def)

section \<open>Deleting a user\<close>

lemma stored_query_Inr:
  "stored_query m k v = Inr P \<Longrightarrow> P = store_match m k v"
  by (auto simp: stored_query_def store_match_def query_def split: if_splits)

lemma admin_delete_user_found:
  assumes "ObjectId user_id = Inr oid"
      and "users_collection st = us1 @ user # us2"
      and "fst user = oid"
      and "\<forall>u \<in> set us1. fst u \<noteq> oid"
  shows "admin_delete_user m user_id st =
      (case stored_query m ''user_email'' (dict_get (snd user) ''email'') of
         Inl e \<Rightarrow> Inl (e, st\<lparr>users_collection := us1 @ us2\<rparr>)
       | Inr P \<Rightarrow>
           Inr ((message_body ''User and their orders removed successfully'', 200),
                st\<lparr>users_collection := us1 @ us2,
                   orders_collection := filter (\<lambda>d. \<not> P d) (orders_collection st)\<rparr>))"
proof -
  have nomatch: "\<forall>u \<in> set us1. \<not> id_is oid u" and match: "id_is oid user"
    using assms(3,4) by (simp_all add: id_is_def)
  have found: "find_one (id_is oid) (users_collection st) = Some user"
    using find_one_append_match[OF nomatch match] assms(2) by simp
  have rm: "remove_first (id_is oid) (users_collection st) = us1 @ us2"
    using remove_first_split[OF nomatch match] assms(2) by simp
  have del: "delete_one (id_is oid) (users_collection st) = (1, us1 @ us2)"
    by (simp add: delete_one_def found rm)
  show ?thesis
    unfolding admin_delete_user_def
    by (simp add: assms(1) found del delete_many_def split: sum.splits)
qed

text \<open>Whatever \<open>admin_delete_user\<close> does, it writes users and orders only.\<close>

lemma admin_delete_user_final:
  "products_collection (final (admin_delete_user m user_id st)) = products_collection st
   \<and> cart_collection (final (admin_delete_user m user_id st)) = cart_collection st
   \<and> emitted (final (admin_delete_user m user_id st)) = emitted st"
  by (simp add: admin_delete_user_def final_def Let_def delete_one_def
        split: sum.splits option.splits prod.splits)

lemma get_cart_same_carts:
  "cart_collection st' = cart_collection st \<Longrightarrow>
     \<exists>items. get_cart e st = Inr ((items, 200), st) \<and> get_cart e st' = Inr ((items, 200), st')"
  by (simp add: get_cart_def Let_def split: option.splits)

text \<open>
  Claim C3, as stated, fails: for the user id \<open>abc\<close>, which no user has,
  \<open>admin_delete_user\<close> answers nothing; \<open>ObjectId\<close> raises \<open>InvalidId\<close>.
\<close>

theorem admin_delete_user_counterexample:
  "find_one (id_is (Oid ''abc'')) (users_collection ex_state) = None
   \<and> admin_delete_user ex_mongo ''abc'' ex_state = Inl (InvalidId, ex_state)
   \<and> admin_delete_user ex_mongo ''abc'' ex_state
       \<noteq> Inr ((error_body ''User not found'', 404), ex_state)"
  by (simp add: admin_delete_user_def ObjectId_def find_one_def id_is_def ex_defs)

text \<open>
  Claim C3, amended. For a user id that \<open>ObjectId\<close> accepts: when no user has the id,
  \<open>admin_delete_user\<close> answers 404 "User not found" and changes nothing; when
  \<open>user\<close> is the user found under the id (and the store evaluates the filter with
  the user's email, as it does for every scalar), it answers 200, removes that user from
  the users collection and keeps exactly the orders that the filter
  \<^verbatim>\<open>{user_email: email}\<close> does not match, so that the listing of
  \<open>admin_get_orders\<close> holds no order that the filter matches and, for a scalar email,
  no order whose \<open>user_email\<close> is that email.
\<close>

theorem admin_delete_user_cascade:
  assumes "ObjectId user_id = Inr oid"
  shows "(find_one (id_is oid) (users_collection st) = None \<longrightarrow>
            admin_delete_user m user_id st = Inr ((error_body ''User not found'', 404), st))
       \<and> (\<forall>user P. find_one (id_is oid) (users_collection st) = Some user
              \<and> stored_query m ''user_email'' (dict_get (snd user) ''email'') = Inr P \<longrightarrow>
            (\<exists>st' us1 us2 listed.
                admin_delete_user m user_id st =
                  Inr ((message_body ''User and their orders removed successfully'', 200), st')
              \<and> users_collection st = us1 @ user # us2
              \<and> (\<forall>u \<in> set us1. fst u \<noteq> oid)
              \<and> users_collection st' = us1 @ us2
              \<and> orders_collection st' =
                  filter (\<lambda>d. \<not> store_match m ''user_email'' (dict_get (snd user) ''email'') d)
                    (orders_collection st)
              \<and> admin_get_orders st' = Inr ((JArr listed, 200), st')
              \<and> (\<forall>fs i. JObj fs \<in> set listed \<longrightarrow>
                    \<not> store_match m ''user_email'' (dict_get (snd user) ''email'') (i, fs))
              \<and> (scalar (dict_get (snd user) ''email'') \<longrightarrow>
                   (\<forall>fs. JObj fs \<in> set listed \<longrightarrow>
                      dict_get fs ''user_email'' \<noteq> dict_get (snd user) ''email''))))
       \<and> (\<forall>user. find_one (id_is oid) (users_collection st) = Some user
              \<and> scalar (dict_get (snd user) ''email'') \<longrightarrow>
            (\<exists>P. stored_query m ''user_email'' (dict_get (snd user) ''email'') = Inr P))"
proof (intro conjI allI impI)
  assume "find_one (id_is oid) (users_collection st) = None"
  with assms show "admin_delete_user m user_id st = Inr ((error_body ''User not found'', 404), st)"
    by (simp add: admin_delete_user_def)
next
  fix user
  assume "find_one (id_is oid) (users_collection st) = Some user
              \<and> scalar (dict_get (snd user) ''email'')"
  then show "\<exists>P. stored_query m ''user_email'' (dict_get (snd user) ''email'') = Inr P"
    by (simp add: stored_query_def)
next
  fix user P
  assume a: "find_one (id_is oid) (users_collection st) = Some user
              \<and> stored_query m ''user_email'' (dict_get (snd user) ''email'') = Inr P"
  define em where "em = dict_get (snd user) ''email''"
  from a have found: "find_one (id_is oid) (users_collection st) = Some user"
    and q: "stored_query m ''user_email'' em = Inr P"
    by (simp_all add: em_def)
  from stored_query_Inr[OF q] have P: "P = store_match m ''user_email'' em" .
  from find_one_split[OF found] obtain us1 us2 where
    split: "users_collection st = us1 @ user # us2" "fst user = oid"
      "\<forall>u \<in> set us1. fst u \<noteq> oid"
    unfolding id_is_def by blast
  define os where
    "os = filter (\<lambda>d. \<not> store_match m ''user_email'' em d) (orders_collection st)"
  define st' where "st' = st\<lparr>users_collection := us1 @ us2, orders_collection := os\<rparr>"
  define listed where "listed = map (\<lambda>d. with_id_str (project admin_order_fields d)) os"
  have run: "admin_delete_user m user_id st =
      Inr ((message_body ''User and their orders removed successfully'', 200), st')"
    using admin_delete_user_found[OF assms split, of m] q P
    by (simp add: st'_def os_def em_def)
  have listing: "admin_get_orders st' = Inr ((JArr listed, 200), st')"
    by (simp add: admin_get_orders_def listed_def st'_def)
  have field: "\<exists>d \<in> set os. map_of fs ''user_email'' = map_of (snd d) ''user_email''"
    if "JObj fs \<in> set listed" for fs
  proof -
    from that obtain d where d: "d \<in> set os"
      and fs: "with_id_str (project admin_order_fields d) = JObj fs"
      unfolding listed_def by auto
    have "map_of fs ''user_email'' = map_of (snd d) ''user_email''"
      by (rule with_id_str_project[OF _ _ fs]) (simp_all add: admin_order_fields_def)
    with d show ?thesis by blast
  qed
  have none: "\<not> store_match m ''user_email'' em (i, fs)" if "JObj fs \<in> set listed" for fs i
  proof -
    from field[OF that] obtain d where d: "d \<in> set os"
      and eq: "map_of fs ''user_email'' = map_of (snd d) ''user_email''"
      by blast
    from d have "\<not> store_match m ''user_email'' em d" by (simp add: os_def)
    with eq show ?thesis by (auto simp: store_match_def field_is_def split: if_splits)
  qed
  have none_eq: "dict_get fs ''user_email'' \<noteq> em" if "scalar em" "JObj fs \<in> set listed" for fs
  proof
    assume "dict_get fs ''user_email'' = em"
    with that(1) have "field_is ''user_email'' em (oid, fs)"
      by (intro field_is_stored) simp_all
    with that(1) have "store_match m ''user_email'' em (oid, fs)"
      by (simp add: store_match_def)
    with none[OF that(2)] show False by blast
  qed
  have "admin_delete_user m user_id st =
          Inr ((message_body ''User and their orders removed successfully'', 200), st')
      \<and> users_collection st = us1 @ user # us2
      \<and> (\<forall>u \<in> set us1. fst u \<noteq> oid)
      \<and> users_collection st' = us1 @ us2
      \<and> orders_collection st' =
          filter (\<lambda>d. \<not> store_match m ''user_email'' em d) (orders_collection st)
      \<and> admin_get_orders st' = Inr ((JArr listed, 200), st')
      \<and> (\<forall>fs i. JObj fs \<in> set listed \<longrightarrow> \<not> store_match m ''user_email'' em (i, fs))
      \<and> (scalar em \<longrightarrow> (\<forall>fs. JObj fs \<in> set listed \<longrightarrow> dict_get fs ''user_email'' \<noteq> em))"
    using run split(1,3) listing none none_eq by (simp add: st'_def os_def)
  then show "\<exists>st' us1 us2 listed.
                admin_delete_user m user_id st =
                  Inr ((message_body ''User and their orders removed successfully'', 200), st')
              \<and> users_collection st = us1 @ user # us2
              \<and> (\<forall>u \<in> set us1. fst u \<noteq> oid)
              \<and> users_collection st' = us1 @ us2
              \<and> orders_collection st' =
                  filter (\<lambda>d. \<not> store_match m ''user_email'' (dict_get (snd user) ''email'') d)
                    (orders_collection st)
              \<and> admin_get_orders st' = Inr ((JArr listed, 200), st')
              \<and> (\<forall>fs i. JObj fs \<in> set listed \<longrightarrow>
                    \<not> store_match m ''user_email'' (dict_get (snd user) ''email'') (i, fs))
              \<and> (scalar (dict_get (snd user) ''email'') \<longrightarrow>
                   (\<forall>fs. JObj fs \<in> set listed \<longrightarrow>
                      dict_get fs ''user_email'' \<noteq> dict_get (snd user) ''email''))"
    unfolding em_def[symmetric]
    by (intro exI[of _ st'] exI[of _ us1] exI[of _ us2] exI[of _ listed])
qed

text \<open>
  In the small store: deleting Ann by her id removes her order and leaves Bob's; an id
  that no user has gives 404.
\<close>

theorem admin_delete_user_cascade_witness:
  "ObjectId ''0000000000000000000000a1'' = Inr (Oid ''0000000000000000000000a1'')
   \<and> find_one (id_is (Oid ''0000000000000000000000a1'')) (users_collection ex_state) = Some ex_ann
   \<and> scalar (dict_get (snd ex_ann) ''email'')
   \<and> (\<exists>st' listed.
         admin_delete_user ex_mongo ''0000000000000000000000a1'' ex_state =
           Inr ((message_body ''User and their orders removed successfully'', 200), st')
       \<and> orders_collection st' = [ex_order_bob]
       \<and> admin_get_orders st' = Inr ((JArr listed, 200), st')
       \<and> (\<forall>fs. JObj fs \<in> set listed \<longrightarrow> dict_get fs ''user_email'' \<noteq> JStr ''ann@shop.test''))
   \<and> ObjectId ''0000000000000000000000a9'' = Inr (Oid ''0000000000000000000000a9'')
   \<and> find_one (id_is (Oid ''0000000000000000000000a9'')) (users_collection ex_state) = None
   \<and> admin_delete_user ex_mongo ''0000000000000000000000a9'' ex_state =
       Inr ((error_body ''User not found'', 404), ex_state)"
proof -
  let ?a1 = "''0000000000000000000000a1''"
  let ?a9 = "''0000000000000000000000a9''"
  have h1: "ObjectId ?a1 = Inr (Oid ?a1)"
    by (simp add: oid_defs)
  have f1: "find_one (id_is (Oid ?a1)) (users_collection ex_state) = Some ex_ann"
    by (simp add: ex_defs find_one_def id_is_def)
  have em: "dict_get (snd ex_ann) ''email'' = JStr ''ann@shop.test''"
    by (simp add: ex_ann_def dict_get_def)
  have sc: "scalar (dict_get (snd ex_ann) ''email'')"
    by (simp add: em)
  have h2: "ObjectId ?a9 = Inr (Oid ?a9)"
    by (simp add: oid_defs)
  have f2: "find_one (id_is (Oid ?a9)) (users_collection ex_state) = None"
    by (simp add: ex_defs find_one_def id_is_def)
  note t1 = admin_delete_user_cascade[OF h1, of ex_state ex_mongo]
  from t1[THEN conjunct2, THEN conjunct2, rule_format, OF conjI[OF f1 sc]]
  obtain P where q: "stored_query ex_mongo ''user_email'' (dict_get (snd ex_ann) ''email'') = Inr P"
    by (elim exE)
  from t1[THEN conjunct2, THEN conjunct1, rule_format, OF conjI[OF f1 q]]
  obtain st' listed where
    r: "admin_delete_user ex_mongo ?a1 ex_state =
          Inr ((message_body ''User and their orders removed successfully'', 200), st')"
    and os: "orders_collection st' =
          filter (\<lambda>d. \<not> store_match ex_mongo ''user_email'' (dict_get (snd ex_ann) ''email'') d)
            (orders_collection ex_state)"
    and l: "admin_get_orders st' = Inr ((JArr listed, 200), st')"
    and n: "scalar (dict_get (snd ex_ann) ''email'') \<longrightarrow>
              (\<forall>fs. JObj fs \<in> set listed \<longrightarrow>
                 dict_get fs ''user_email'' \<noteq> dict_get (snd ex_ann) ''email'')"
    by blast
  have os': "orders_collection st' = [ex_order_bob]"
    unfolding os em by (simp add: ex_defs store_match_def field_is_def)
  have n': "\<forall>fs. JObj fs \<in> set listed \<longrightarrow> dict_get fs ''user_email'' \<noteq> JStr ''ann@shop.test''"
    using n sc unfolding em by blast
  have c1: "\<exists>st' listed.
         admin_delete_user ex_mongo ?a1 ex_state =
           Inr ((message_body ''User and their orders removed successfully'', 200), st')
       \<and> orders_collection st' = [ex_order_bob]
       \<and> admin_get_orders st' = Inr ((JArr listed, 200), st')
       \<and> (\<forall>fs. JObj fs \<in> set listed \<longrightarrow> dict_get fs ''user_email'' \<noteq> JStr ''ann@shop.test'')"
    using r os' l n' by (intro exI[of _ st'] exI[of _ listed] conjI)
  have c2: "admin_delete_user ex_mongo ?a9 ex_state =
       Inr ((error_body ''User not found'', 404), ex_state)"
    by (rule admin_delete_user_cascade[OF h2, of ex_state ex_mongo, THEN conjunct1, rule_format,
               OF f2])
  from h1 f1 sc c1 h2 f2 c2 show ?thesis by (intro conjI)
qed

text \<open>
  Claim C10. A successful \<open>admin_delete_user\<close> (the id denotes \<open>oid\<close> and a user is
  found under it) writes the users and orders collections only: the products, the carts
  and the broadcast events are as before, so \<open>get_cart\<close> returns for every email,
  the deleted user's included, the items it returned before the delete. For an existing
  user every response is the success, and the call succeeds whenever the store evaluates
  the filter with the user's stored email, as it does for every scalar email. The frame
  also holds of the state that any call of \<open>admin_delete_user\<close> leaves, whether it
  answers or raises.
\<close>

theorem admin_delete_user_frame:
  assumes "ObjectId user_id = Inr oid"
      and "find_one (id_is oid) (users_collection st) = Some user"
  shows "(scalar (dict_get (snd user) ''email'') \<or> filter_ok m (dict_get (snd user) ''email'') \<longrightarrow>
          (\<exists>st'. admin_delete_user m user_id st =
                 Inr ((message_body ''User and their orders removed successfully'', 200), st')
           \<and> products_collection st' = products_collection st
           \<and> cart_collection st' = cart_collection st
           \<and> emitted st' = emitted st
           \<and> (\<forall>e. \<exists>items. get_cart e st = Inr ((items, 200), st)
                          \<and> get_cart e st' = Inr ((items, 200), st'))))
       \<and> (\<forall>resp st'. admin_delete_user m user_id st = Inr (resp, st') \<longrightarrow>
             resp = (message_body ''User and their orders removed successfully'', 200)
           \<and> products_collection st' = products_collection st
           \<and> cart_collection st' = cart_collection st
           \<and> emitted st' = emitted st
           \<and> (\<forall>e. \<exists>items. get_cart e st = Inr ((items, 200), st)
                          \<and> get_cart e st' = Inr ((items, 200), st')))
       \<and> (\<forall>uid s. products_collection (final (admin_delete_user m uid s)) = products_collection s
            \<and> cart_collection (final (admin_delete_user m uid s)) = cart_collection s
            \<and> emitted (final (admin_delete_user m uid s)) = emitted s
            \<and> (\<forall>e. \<exists>items. get_cart e s = Inr ((items, 200), s)
                  \<and> get_cart e (final (admin_delete_user m uid s)) =
                      Inr ((items, 200), final (admin_delete_user m uid s))))"
proof (intro conjI impI allI)
  assume "scalar (dict_get (snd user) ''email'') \<or> filter_ok m (dict_get (snd user) ''email'')"
  then have "\<exists>P. stored_query m ''user_email'' (dict_get (snd user) ''email'') = Inr P"
    by (cases "scalar (dict_get (snd user) ''email'')") (auto simp: stored_query_def query_def)
  then obtain P where q: "stored_query m ''user_email'' (dict_get (snd user) ''email'') = Inr P"
    by (elim exE)
  from find_one_split[OF assms(2)] obtain us1 us2 where
    split: "users_collection st = us1 @ user # us2" "fst user = oid"
      "\<forall>u \<in> set us1. fst u \<noteq> oid"
    unfolding id_is_def by blast
  define st' where "st' = st\<lparr>users_collection := us1 @ us2,
      orders_collection := filter (\<lambda>d. \<not> P d) (orders_collection st)\<rparr>"
  have run: "admin_delete_user m user_id st =
      Inr ((message_body ''User and their orders removed successfully'', 200), st')"
    using admin_delete_user_found[OF assms(1) split, of m] q by (simp add: st'_def)
  have carts: "cart_collection st' = cart_collection st" by (simp add: st'_def)
  have "admin_delete_user m user_id st =
                 Inr ((message_body ''User and their orders removed successfully'', 200), st')
           \<and> products_collection st' = products_collection st
           \<and> cart_collection st' = cart_collection st
           \<and> emitted st' = emitted st
           \<and> (\<forall>e. \<exists>items. get_cart e st = Inr ((items, 200), st)
                          \<and> get_cart e st' = Inr ((items, 200), st'))"
    using run get_cart_same_carts[OF carts] by (simp add: st'_def)
  then show "\<exists>st'. admin_delete_user m user_id st =
                 Inr ((message_body ''User and their orders removed successfully'', 200), st')
           \<and> products_collection st' = products_collection st
           \<and> cart_collection st' = cart_collection st
           \<and> emitted st' = emitted st
           \<and> (\<forall>e. \<exists>items. get_cart e st = Inr ((items, 200), st)
                          \<and> get_cart e st' = Inr ((items, 200), st'))"
    by (rule exI)
next
  fix resp st'
  assume r: "admin_delete_user m user_id st = Inr (resp, st')"
  from find_one_split[OF assms(2)] obtain us1 us2 where
    split: "users_collection st = us1 @ user # us2" "fst user = oid"
      "\<forall>u \<in> set us1. fst u \<noteq> oid"
    unfolding id_is_def by blast
  from r admin_delete_user_found[OF assms(1) split, of m]
  show "resp = (message_body ''User and their orders removed successfully'', 200)"
    by (auto split: sum.splits)
  from r admin_delete_user_final[of m user_id st]
  have frame: "products_collection st' = products_collection st"
    "cart_collection st' = cart_collection st" "emitted st' = emitted st"
    by (simp_all add: final_def)
  show "products_collection st' = products_collection st" by (rule frame(1))
  show "cart_collection st' = cart_collection st" by (rule frame(2))
  show "emitted st' = emitted st" by (rule frame(3))
  fix e
  show "\<exists>items. get_cart e st = Inr ((items, 200), st)
                          \<and> get_cart e st' = Inr ((items, 200), st')"
    by (rule get_cart_same_carts[OF frame(2)])
next
  fix uid s
  show "products_collection (final (admin_delete_user m uid s)) = products_collection s"
    using admin_delete_user_final[of m uid s] by simp
  show "cart_collection (final (admin_delete_user m uid s)) = cart_collection s"
    using admin_delete_user_final[of m uid s] by simp
  show "emitted (final (admin_delete_user m uid s)) = emitted s"
    using admin_delete_user_final[of m uid s] by simp
next
  fix uid s e
  have "cart_collection (final (admin_delete_user m uid s)) = cart_collection s"
    using admin_delete_user_final[of m uid s] by simp
  from get_cart_same_carts[OF this]
  show "\<exists>items. get_cart e s = Inr ((items, 200), s)
          \<and> get_cart e (final (admin_delete_user m uid s)) =
              Inr ((items, 200), final (admin_delete_user m uid s))" .
qed

text \<open>In the small store, Ann's cart is still served after Ann is deleted.\<close>

theorem admin_delete_user_frame_witness:
  "ObjectId ''0000000000000000000000a1'' = Inr (Oid ''0000000000000000000000a1'')
   \<and> find_one (id_is (Oid ''0000000000000000000000a1'')) (users_collection ex_state) = Some ex_ann
   \<and> scalar (dict_get (snd ex_ann) ''email'')
   \<and> (\<exists>st'. admin_delete_user ex_mongo ''0000000000000000000000a1'' ex_state =
                 Inr ((message_body ''User and their orders removed successfully'', 200), st')
           \<and> products_collection st' = [ex_pen, ex_mug]
           \<and> cart_collection st' = [ex_cart_ann]
           \<and> get_cart ''ann@shop.test'' st' =
               Inr ((JArr [JObj [(''id'', JInt 42), (''quantity'', JInt 1)]], 200), st'))"
proof -
  have h: "ObjectId ''0000000000000000000000a1'' = Inr (Oid ''0000000000000000000000a1'')"
    by (simp add: oid_defs)
  have f: "find_one (id_is (Oid ''0000000000000000000000a1'')) (users_collection ex_state)
             = Some ex_ann"
    by (simp add: ex_defs find_one_def id_is_def)
  have sc: "scalar (dict_get (snd ex_ann) ''email'')"
    by (simp add: ex_ann_def dict_get_def)
  from admin_delete_user_frame[OF h f, of ex_mongo, THEN conjunct1, rule_format,
         OF disjI1[OF sc]]
  obtain st' where
    r: "admin_delete_user ex_mongo ''0000000000000000000000a1'' ex_state =
          Inr ((message_body ''User and their orders removed successfully'', 200), st')"
    and p: "products_collection st' = products_collection ex_state"
    and c: "cart_collection st' = cart_collection ex_state"
    and g: "\<forall>e. \<exists>items. get_cart e ex_state = Inr ((items, 200), ex_state)
                          \<and> get_cart e st' = Inr ((items, 200), st')"
    by blast
  have before: "get_cart ''ann@shop.test'' ex_state =
      Inr ((JArr [JObj [(''id'', JInt 42), (''quantity'', JInt 1)]], 200), ex_state)"
    by (simp add: get_cart_def ex_defs find_one_def field_is_def dict_get_def)
  from g[rule_format, of "''ann@shop.test''"] obtain items where
    a: "get_cart ''ann@shop.test'' ex_state = Inr ((items, 200), ex_state)"
    and b: "get_cart ''ann@shop.test'' st' = Inr ((items, 200), st')"
    by (elim exE conjE)
  from a before have "items = JArr [JObj [(''id'', JInt 42), (''quantity'', JInt 1)]]"
    by simp
  with b have after: "get_cart ''ann@shop.test'' st' =
      Inr ((JArr [JObj [(''id'', JInt 42), (''quantity'', JInt 1)]], 200), st')"
    by simp
  have "products_collection st' = [ex_pen, ex_mug]" "cart_collection st' = [ex_cart_ann]"
    using p c by (simp_all add: ex_state_def)
  with r after have "\<exists>st'. admin_delete_user ex_mongo ''0000000000000000000000a1'' ex_state =
                 Inr ((message_body ''User and their orders removed successfully'', 200), st')
           \<and> products_collection st' = [ex_pen, ex_mug]
           \<and> cart_collection st' = [ex_cart_ann]
           \<and> get_cart ''ann@shop.test'' st' =
               Inr ((JArr [JObj [(''id'', JInt 42), (''quantity'', JInt 1)]], 200), st')"
    by blast
  with h f sc show ?thesis by (intro conjI)
qed

section \<open>Updating the stock of a product\<close>

lemma update_stock_found:
  assumes "dict_get kvs ''stock'' \<noteq> JNull"
      and "filter_ok m (JInt (int product_id))"
      and "writable m [(''stock'', dict_get kvs ''stock'')] True"
      and "products_collection st = ps1 @ d # ps2"
      and "field_is ''id'' (JInt (int product_id)) d"
      and "\<forall>x \<in> set ps1. \<not> field_is ''id'' (JInt (int product_id)) x"
  shows "update_stock m raises product_id (JObj kvs) st =
           (if raises
            then Inl (TypeError,
                  st\<lparr>products_collection :=
                      ps1 @ (fst d, AList.update ''stock'' (dict_get kvs ''stock'') (snd d)) # ps2\<rparr>)
            else Inr ((message_body ''Stock updated'', 200),
                st\<lparr>products_collection :=
                      ps1 @ (fst d, AList.update ''stock'' (dict_get kvs ''stock'') (snd d)) # ps2,
                    emitted := emitted st @
                      [(''stock_update'',
                        JObj [(''product_id'', JInt (int product_id)),
                              (''stock'', dict_get kvs ''stock'')])]\<rparr>))"
proof -
  have found: "find_one (field_is ''id'' (JInt (int product_id))) (products_collection st) = Some d"
    using find_one_append_match[OF assms(6,5)] assms(4) by simp
  have "update_one_by m ''id'' (JInt (int product_id)) [(''stock'', dict_get kvs ''stock'')]
          (products_collection st) =
        Inr (update_one (field_is ''id'' (JInt (int product_id)))
               (set_fields [(''stock'', dict_get kvs ''stock'')]) (products_collection st))"
    using assms(2,3) found by (intro update_one_by_scalar) simp_all
  then show ?thesis
    using assms(1) update_one_found[OF assms(6,5)]
    by (simp add: update_stock_def assms(4) set_fields_single Let_def)
qed

lemma update_stock_none:
  assumes "dict_get kvs ''stock'' \<noteq> JNull"
      and "filter_ok m (JInt (int product_id))"
      and "writable m [(''stock'', dict_get kvs ''stock'')] False"
      and "find_one (field_is ''id'' (JInt (int product_id))) (products_collection st) = None"
  shows "update_stock m raises product_id (JObj kvs) st =
           Inr ((error_body ''Product not found'', 404), st)"
proof -
  have "update_one_by m ''id'' (JInt (int product_id)) [(''stock'', dict_get kvs ''stock'')]
          (products_collection st) =
        Inr (update_one (field_is ''id'' (JInt (int product_id)))
               (set_fields [(''stock'', dict_get kvs ''stock'')]) (products_collection st))"
    using assms(2,3,4) by (intro update_one_by_scalar) simp_all
  then show ?thesis
    using assms(1) update_one_none[OF assms(4)]
    by (simp add: update_stock_def Let_def)
qed

text \<open>
  Claim C1, as stated, fails. For the existing product 42 and the stock \<open>2^63\<close>, which
  is present, \<open>update_stock\<close> does not set the stock and broadcasts nothing: the store
  cannot encode the number and \<^verbatim>\<open>update_one\<close> raises. For the product id \<open>2^63\<close>,
  which no product has, the answer is not 404: the filter cannot be encoded either. And
  where \<^verbatim>\<open>socketio.emit\<close> refuses the keyword \<^verbatim>\<open>broadcast\<close>, the stock of product 42
  is set to 7 and no event is broadcast. A body that is not a JSON object, such as the
  empty list, has no stock, and is not answered with 400: \<^verbatim>\<open>data.get\<close> raises.
\<close>

theorem update_stock_counterexample:
  "find_one (field_is ''id'' (JInt (int 42))) (products_collection ex_state) = Some ex_mug
   \<and> dict_get [(''stock'', JInt (2 ^ 63))] ''stock'' \<noteq> JNull
   \<and> update_stock ex_mongo False 42 (JObj [(''stock'', JInt (2 ^ 63))]) ex_state =
       Inl (StoreError, ex_state)
   \<and> find_one (field_is ''id'' (JInt (int (2 ^ 63)))) (products_collection ex_state) = None
   \<and> update_stock ex_mongo False (2 ^ 63) (JObj [(''stock'', JInt 7)]) ex_state =
       Inl (StoreError, ex_state)
   \<and> update_stock ex_mongo True 42 (JObj [(''stock'', JInt 7)]) ex_state =
       Inl (TypeError,
            ex_state\<lparr>products_collection :=
              [ex_pen, (fst ex_mug, AList.update ''stock'' (JInt 7) (snd ex_mug))]\<rparr>)
   \<and> emitted (final (update_stock ex_mongo True 42 (JObj [(''stock'', JInt 7)]) ex_state)) = []
   \<and> update_stock ex_mongo False 42 (JArr []) ex_state = Inl (AttributeError, ex_state)"
proof -
  have a: "find_one (field_is ''id'' (JInt (int 42))) (products_collection ex_state) = Some ex_mug"
    by (simp add: ex_defs find_one_def field_is_def)
  have b: "dict_get [(''stock'', JInt (2 ^ 63))] ''stock'' \<noteq> JNull"
    by (simp add: dict_get_def)
  have c: "update_stock ex_mongo False 42 (JObj [(''stock'', JInt (2 ^ 63))]) ex_state =
       Inl (StoreError, ex_state)"
    by (simp add: update_stock_def Let_def dict_get_def update_one_by_def)
  have d: "find_one (field_is ''id'' (JInt (int (2 ^ 63)))) (products_collection ex_state) = None"
    by (simp add: ex_defs find_one_def field_is_def)
  have e: "update_stock ex_mongo False (2 ^ 63) (JObj [(''stock'', JInt 7)]) ex_state =
       Inl (StoreError, ex_state)"
    by (simp add: update_stock_def Let_def dict_get_def update_one_by_def ex_store_defs)
  have f: "update_stock ex_mongo True 42 (JObj [(''stock'', JInt 7)]) ex_state =
       Inl (TypeError,
            ex_state\<lparr>products_collection :=
              [ex_pen, (fst ex_mug, AList.update ''stock'' (JInt 7) (snd ex_mug))]\<rparr>)"
    by (simp add: update_stock_def Let_def dict_get_def update_one_by_def ex_store_defs
          update_one_def find_one_def set_fields_def ex_defs)
  have g: "emitted (final (update_stock ex_mongo True 42 (JObj [(''stock'', JInt 7)]) ex_state))
             = []"
    unfolding f by (simp add: final_def ex_state_def)
  have h: "update_stock ex_mongo False 42 (JArr []) ex_state = Inl (AttributeError, ex_state)"
    by (simp add: update_stock_def)
  from a b c d e f g h show ?thesis by (intro conjI)
qed

text \<open>
  Claim C1, amended. With a body that is a JSON object: when \<open>stock\<close> is missing (or
  null), \<open>update_stock\<close> answers 400 and the state, broadcasts included, is unchanged;
  when the store takes the product id and the stock (\<open>filter_ok\<close>, \<open>writable\<close>: both
  within 64 bits and not refused) and no product matches the id, it answers 404 and the
  state is unchanged; when the store takes them, \<open>d\<close> is the product found under the
  id and \<^verbatim>\<open>socketio.emit\<close> accepts the call, it answers 200, that product gets the new
  stock and keeps its other fields, the other products and collections are untouched,
  exactly one event \<open>stock_update\<close> with the product id and the stock is appended to the
  broadcasts, and the listing of \<open>get_products\<close> then holds a product matching the id
  with that stock (every listed product matching the id has that stock when \<open>d\<close> is
  the only product matching the id). With a body that is not a JSON object an exception
  escapes and the state is unchanged.
\<close>

theorem update_stock_correct:
  "(dict_get kvs ''stock'' = JNull \<longrightarrow>
      update_stock m raises product_id (JObj kvs) st =
        Inr ((error_body ''Missing stock value'', 400), st))
 \<and> (dict_get kvs ''stock'' \<noteq> JNull
      \<and> filter_ok m (JInt (int product_id))
      \<and> writable m [(''stock'', dict_get kvs ''stock'')] False
      \<and> find_one (field_is ''id'' (JInt (int product_id))) (products_collection st) = None \<longrightarrow>
      update_stock m raises product_id (JObj kvs) st =
        Inr ((error_body ''Product not found'', 404), st))
 \<and> (\<forall>d. dict_get kvs ''stock'' \<noteq> JNull
      \<and> filter_ok m (JInt (int product_id))
      \<and> writable m [(''stock'', dict_get kvs ''stock'')] True
      \<and> find_one (field_is ''id'' (JInt (int product_id))) (products_collection st) = Some d
      \<and> \<not> raises \<longrightarrow>
      (\<exists>st' ps1 ps2 d' listed.
          update_stock m raises product_id (JObj kvs) st =
            Inr ((message_body ''Stock updated'', 200), st')
        \<and> products_collection st = ps1 @ d # ps2
        \<and> (\<forall>x \<in> set ps1. \<not> field_is ''id'' (JInt (int product_id)) x)
        \<and> products_collection st' = ps1 @ d' # ps2
        \<and> fst d' = fst d
        \<and> dict_get (snd d') ''stock'' = dict_get kvs ''stock''
        \<and> (\<forall>k. k \<noteq> ''stock'' \<longrightarrow> map_of (snd d') k = map_of (snd d) k)
        \<and> emitted st' = emitted st @
             [(''stock_update'',
               JObj [(''product_id'', JInt (int product_id)), (''stock'', dict_get kvs ''stock'')])]
        \<and> users_collection st' = users_collection st
        \<and> orders_collection st' = orders_collection st
        \<and> cart_collection st' = cart_collection st
        \<and> get_products st' = Inr ((JArr listed, 200), st')
        \<and> (\<exists>fs i. JObj fs \<in> set listed \<and> field_is ''id'' (JInt (int product_id)) (i, fs)
                \<and> dict_get fs ''stock'' = dict_get kvs ''stock'')
        \<and> (filter (field_is ''id'' (JInt (int product_id))) (products_collection st) = [d] \<longrightarrow>
             (\<forall>fs i. JObj fs \<in> set listed \<and> field_is ''id'' (JInt (int product_id)) (i, fs) \<longrightarrow>
                   dict_get fs ''stock'' = dict_get kvs ''stock''))))
 \<and> ((\<forall>fs. data \<noteq> JObj fs) \<longrightarrow>
      update_stock m raises product_id data st = Inl (AttributeError, st))"
proof (intro conjI allI impI)
  assume "dict_get kvs ''stock'' = JNull"
  then show "update_stock m raises product_id (JObj kvs) st =
      Inr ((error_body ''Missing stock value'', 400), st)"
    by (simp add: update_stock_def)
next
  assume "dict_get kvs ''stock'' \<noteq> JNull
      \<and> filter_ok m (JInt (int product_id))
      \<and> writable m [(''stock'', dict_get kvs ''stock'')] False
      \<and> find_one (field_is ''id'' (JInt (int product_id))) (products_collection st) = None"
  then show "update_stock m raises product_id (JObj kvs) st =
      Inr ((error_body ''Product not found'', 404), st)"
    by (intro update_stock_none) simp_all
next
  fix d
  assume a: "dict_get kvs ''stock'' \<noteq> JNull
      \<and> filter_ok m (JInt (int product_id))
      \<and> writable m [(''stock'', dict_get kvs ''stock'')] True
      \<and> find_one (field_is ''id'' (JInt (int product_id))) (products_collection st) = Some d
      \<and> \<not> raises"
  define s where "s = dict_get kvs ''stock''"
  define p where "p = JInt (int product_id)"
  from a have present: "dict_get kvs ''stock'' \<noteq> JNull"
    and fok: "filter_ok m (JInt (int product_id))"
    and wok: "writable m [(''stock'', dict_get kvs ''stock'')] True"
    and found: "find_one (field_is ''id'' p) (products_collection st) = Some d"
    and quiet: "\<not> raises"
    by (simp_all add: p_def)
  from find_one_split[OF found] obtain ps1 ps2 where
    split: "products_collection st = ps1 @ d # ps2" "field_is ''id'' p d"
      "\<forall>x \<in> set ps1. \<not> field_is ''id'' p x"
    by blast
  define d' where "d' = (fst d, AList.update ''stock'' s (snd d))"
  define ev where "ev = (''stock_update'', JObj [(''product_id'', p), (''stock'', s)])"
  define st' where
    "st' = st\<lparr>products_collection := ps1 @ d' # ps2, emitted := emitted st @ [ev]\<rparr>"
  define listed where "listed = map (\<lambda>d. JObj (snd d)) (ps1 @ d' # ps2)"
  have run: "update_stock m raises product_id (JObj kvs) st =
      Inr ((message_body ''Stock updated'', 200), st')"
    using update_stock_found[OF present fok wok split(1) split(2)[unfolded p_def]
            split(3)[unfolded p_def], of raises] quiet
    by (simp add: st'_def d'_def ev_def s_def p_def)
  have same_id: "field_is ''id'' p (i, snd x) = field_is ''id'' p x" for i x
    by (simp add: field_is_def)
  have id_d': "field_is ''id'' p d'"
    using split(2) by (simp add: d'_def field_is_def update_conv')
  have stock_d': "dict_get (snd d') ''stock'' = s"
    by (simp add: d'_def dict_get_update_same)
  have other_d': "\<forall>k. k \<noteq> ''stock'' \<longrightarrow> map_of (snd d') k = map_of (snd d) k"
    by (simp add: d'_def update_conv')
  have listing: "get_products st' = Inr ((JArr listed, 200), st')"
    by (simp add: get_products_def listed_def st'_def)
  have ex: "\<exists>fs i. JObj fs \<in> set listed \<and> field_is ''id'' p (i, fs) \<and> dict_get fs ''stock'' = s"
    using id_d' stock_d'
    by (intro exI[of _ "snd d'"] exI[of _ "fst d'"]) (simp add: listed_def)
  have uniq: "dict_get fs ''stock'' = s"
    if one: "filter (field_is ''id'' p) (products_collection st) = [d]"
      and fs: "JObj fs \<in> set listed \<and> field_is ''id'' p (i, fs)" for fs i
  proof -
    from split(3) have "filter (field_is ''id'' p) ps1 = []"
      by (simp add: filter_empty_conv)
    with one split(1,2) have "filter (field_is ''id'' p) ps2 = []"
      by simp
    then have after: "\<forall>x \<in> set ps2. \<not> field_is ''id'' p x"
      by (simp add: filter_empty_conv)
    from fs have "fs \<in> snd ` set (ps1 @ d' # ps2)"
      unfolding listed_def by force
    then consider "fs = snd d'" | x where "x \<in> set ps1" "fs = snd x"
      | x where "x \<in> set ps2" "fs = snd x"
      by auto
    then show ?thesis
    proof cases
      case 1
      with stock_d' show ?thesis by simp
    next
      case 2
      with split(3) fs same_id[of i x] show ?thesis by auto
    next
      case 3
      with after fs same_id[of i x] show ?thesis by auto
    qed
  qed
  have uniq': "filter (field_is ''id'' p) (products_collection st) = [d] \<longrightarrow>
             (\<forall>fs i. JObj fs \<in> set listed \<and> field_is ''id'' p (i, fs) \<longrightarrow>
                dict_get fs ''stock'' = s)"
    using uniq by blast
  have c4: "products_collection st' = ps1 @ d' # ps2" by (simp add: st'_def)
  have c5: "fst d' = fst d" by (simp add: d'_def)
  have c8: "emitted st' = emitted st @ [ev]" by (simp add: st'_def)
  have c9: "users_collection st' = users_collection st" by (simp add: st'_def)
  have c10: "orders_collection st' = orders_collection st" by (simp add: st'_def)
  have c11: "cart_collection st' = cart_collection st" by (simp add: st'_def)
  from run split(1,3) c4 c5 stock_d' other_d' c8 c9 c10 c11 listing ex uniq'
  have "update_stock m raises product_id (JObj kvs) st =
            Inr ((message_body ''Stock updated'', 200), st')
        \<and> products_collection st = ps1 @ d # ps2
        \<and> (\<forall>x \<in> set ps1. \<not> field_is ''id'' p x)
        \<and> products_collection st' = ps1 @ d' # ps2
        \<and> fst d' = fst d
        \<and> dict_get (snd d') ''stock'' = s
        \<and> (\<forall>k. k \<noteq> ''stock'' \<longrightarrow> map_of (snd d') k = map_of (snd d) k)
        \<and> emitted st' = emitted st @ [ev]
        \<and> users_collection st' = users_collection st
        \<and> orders_collection st' = orders_collection st
        \<and> cart_collection st' = cart_collection st
        \<and> get_products st' = Inr ((JArr listed, 200), st')
        \<and> (\<exists>fs i. JObj fs \<in> set listed \<and> field_is ''id'' p (i, fs) \<and> dict_get fs ''stock'' = s)
        \<and> (filter (field_is ''id'' p) (products_collection st) = [d] \<longrightarrow>
             (\<forall>fs i. JObj fs \<in> set listed \<and> field_is ''id'' p (i, fs) \<longrightarrow>
                dict_get fs ''stock'' = s))"
    by (intro conjI)
  then show "\<exists>st' ps1 ps2 d' listed.
          update_stock m raises product_id (JObj kvs) st =
            Inr ((message_body ''Stock updated'', 200), st')
        \<and> products_collection st = ps1 @ d # ps2
        \<and> (\<forall>x \<in> set ps1. \<not> field_is ''id'' (JInt (int product_id)) x)
        \<and> products_collection st' = ps1 @ d' # ps2
        \<and> fst d' = fst d
        \<and> dict_get (snd d') ''stock'' = dict_get kvs ''stock''
        \<and> (\<forall>k. k \<noteq> ''stock'' \<longrightarrow> map_of (snd d') k = map_of (snd d) k)
        \<and> emitted st' = emitted st @
             [(''stock_update'',
               JObj [(''product_id'', JInt (int product_id)), (''stock'', dict_get kvs ''stock'')])]
        \<and> users_collection st' = users_collection st
        \<and> orders_collection st' = orders_collection st
        \<and> cart_collection st' = cart_collection st
        \<and> get_products st' = Inr ((JArr listed, 200), st')
        \<and> (\<exists>fs i. JObj fs \<in> set listed \<and> field_is ''id'' (JInt (int product_id)) (i, fs)
                \<and> dict_get fs ''stock'' = dict_get kvs ''stock'')
        \<and> (filter (field_is ''id'' (JInt (int product_id))) (products_collection st) = [d] \<longrightarrow>
             (\<forall>fs i. JObj fs \<in> set listed \<and> field_is ''id'' (JInt (int product_id)) (i, fs) \<longrightarrow>
                   dict_get fs ''stock'' = dict_get kvs ''stock''))"
    unfolding s_def[symmetric] p_def[symmetric] ev_def[symmetric]
    by (intro exI[of _ st'] exI[of _ ps1] exI[of _ ps2] exI[of _ d'] exI[of _ listed])
next
  assume "\<forall>fs. data \<noteq> JObj fs"
  then show "update_stock m raises product_id data st = Inl (AttributeError, st)"
    by (cases data) (simp_all add: update_stock_def)
qed

text \<open>
  In the small store: \<open>update_stock 42\<close> with stock 7 updates the mug and broadcasts
  once; a body without \<open>stock\<close> gives 400 and an unknown id 404, both without a change;
  the empty list as body raises.
\<close>

theorem update_stock_correct_witness:
  "dict_get [(''stock'', JInt 7)] ''stock'' \<noteq> JNull
   \<and> filter_ok ex_mongo (JInt (int 42))
   \<and> writable ex_mongo [(''stock'', dict_get [(''stock'', JInt 7)] ''stock'')] True
   \<and> find_one (field_is ''id'' (JInt (int 42))) (products_collection ex_state) = Some ex_mug
   \<and> filter (field_is ''id'' (JInt (int 42))) (products_collection ex_state) = [ex_mug]
   \<and> (\<exists>st' listed.
         update_stock ex_mongo False 42 (JObj [(''stock'', JInt 7)]) ex_state =
           Inr ((message_body ''Stock updated'', 200), st')
       \<and> emitted st' = [(''stock_update'', JObj [(''product_id'', JInt 42), (''stock'', JInt 7)])]
       \<and> get_products st' = Inr ((JArr listed, 200), st')
       \<and> (\<exists>fs i. JObj fs \<in> set listed \<and> field_is ''id'' (JInt 42) (i, fs)
               \<and> dict_get fs ''stock'' = JInt 7)
       \<and> (\<forall>fs i. JObj fs \<in> set listed \<and> field_is ''id'' (JInt 42) (i, fs) \<longrightarrow>
               dict_get fs ''stock'' = JInt 7))
   \<and> dict_get [] ''stock'' = JNull
   \<and> update_stock ex_mongo False 42 (JObj []) ex_state =
       Inr ((error_body ''Missing stock value'', 400), ex_state)
   \<and> filter_ok ex_mongo (JInt (int 5))
   \<and> writable ex_mongo [(''stock'', dict_get [(''stock'', JInt 7)] ''stock'')] False
   \<and> find_one (field_is ''id'' (JInt (int 5))) (products_collection ex_state) = None
   \<and> update_stock ex_mongo False 5 (JObj [(''stock'', JInt 7)]) ex_state =
       Inr ((error_body ''Product not found'', 404), ex_state)
   \<and> (\<forall>fs. JArr [] \<noteq> JObj fs)
   \<and> update_stock ex_mongo False 42 (JArr []) ex_state = Inl (AttributeError, ex_state)"
proof -
  have s7: "dict_get [(''stock'', JInt 7)] ''stock'' = JInt 7"
    by (simp add: dict_get_def)
  have h1: "dict_get [(''stock'', JInt 7)] ''stock'' \<noteq> JNull"
    by (simp add: s7)
  have k1: "filter_ok ex_mongo (JInt (int 42))"
    by (simp add: filter_ok_def ex_mongo_def)
  have w1: "writable ex_mongo [(''stock'', dict_get [(''stock'', JInt 7)] ''stock'')] True"
    by (simp add: s7 writable_def ex_mongo_def)
  have f1: "find_one (field_is ''id'' (JInt (int 42))) (products_collection ex_state) = Some ex_mug"
    by (simp add: ex_defs find_one_def field_is_def)
  have u1: "filter (field_is ''id'' (JInt (int 42))) (products_collection ex_state) = [ex_mug]"
    by (simp add: ex_defs field_is_def)
  have h2: "dict_get [] ''stock'' = JNull"
    by (simp add: dict_get_def)
  have k3: "filter_ok ex_mongo (JInt (int 5))"
    by (simp add: filter_ok_def ex_mongo_def)
  have w3: "writable ex_mongo [(''stock'', dict_get [(''stock'', JInt 7)] ''stock'')] False"
    by (simp add: s7 writable_def ex_mongo_def)
  have f3: "find_one (field_is ''id'' (JInt (int 5))) (products_collection ex_state) = None"
    by (simp add: ex_defs find_one_def field_is_def)
  have q: "\<not> False" by simp
  note t1 = update_stock_correct[of "[(''stock'', JInt 7)]" ex_mongo False 42 ex_state,
              THEN conjunct2, THEN conjunct2, THEN conjunct1, rule_format,
              OF conjI[OF h1 conjI[OF k1 conjI[OF w1 conjI[OF f1 q]]]]]
  from t1 obtain st' ps1 ps2 d' listed where
    big: "update_stock ex_mongo False 42 (JObj [(''stock'', JInt 7)]) ex_state =
            Inr ((message_body ''Stock updated'', 200), st')
        \<and> products_collection ex_state = ps1 @ ex_mug # ps2
        \<and> (\<forall>x \<in> set ps1. \<not> field_is ''id'' (JInt (int 42)) x)
        \<and> products_collection st' = ps1 @ d' # ps2
        \<and> fst d' = fst ex_mug
        \<and> dict_get (snd d') ''stock'' = dict_get [(''stock'', JInt 7)] ''stock''
        \<and> (\<forall>k. k \<noteq> ''stock'' \<longrightarrow> map_of (snd d') k = map_of (snd ex_mug) k)
        \<and> emitted st' = emitted ex_state @
             [(''stock_update'',
               JObj [(''product_id'', JInt (int 42)),
                     (''stock'', dict_get [(''stock'', JInt 7)] ''stock'')])]
        \<and> users_collection st' = users_collection ex_state
        \<and> orders_collection st' = orders_collection ex_state
        \<and> cart_collection st' = cart_collection ex_state
        \<and> get_products st' = Inr ((JArr listed, 200), st')
        \<and> (\<exists>fs i. JObj fs \<in> set listed \<and> field_is ''id'' (JInt (int 42)) (i, fs)
                \<and> dict_get fs ''stock'' = dict_get [(''stock'', JInt 7)] ''stock'')
        \<and> (filter (field_is ''id'' (JInt (int 42))) (products_collection ex_state) = [ex_mug] \<longrightarrow>
             (\<forall>fs i. JObj fs \<in> set listed \<and> field_is ''id'' (JInt (int 42)) (i, fs) \<longrightarrow>
                   dict_get fs ''stock'' = dict_get [(''stock'', JInt 7)] ''stock''))"
    by (elim exE)
  from big have r: "update_stock ex_mongo False 42 (JObj [(''stock'', JInt 7)]) ex_state =
          Inr ((message_body ''Stock updated'', 200), st')"
    by (elim conjE)
  from big have e: "emitted st' = emitted ex_state @
             [(''stock_update'',
               JObj [(''product_id'', JInt (int 42)),
                     (''stock'', dict_get [(''stock'', JInt 7)] ''stock'')])]"
    by (elim conjE)
  from big have l: "get_products st' = Inr ((JArr listed, 200), st')"
    by (elim conjE)
  from big have x: "\<exists>fs i. JObj fs \<in> set listed \<and> field_is ''id'' (JInt (int 42)) (i, fs)
                \<and> dict_get fs ''stock'' = dict_get [(''stock'', JInt 7)] ''stock''"
    by (elim conjE)
  from big have a: "filter (field_is ''id'' (JInt (int 42))) (products_collection ex_state) = [ex_mug] \<longrightarrow>
             (\<forall>fs i. JObj fs \<in> set listed \<and> field_is ''id'' (JInt (int 42)) (i, fs) \<longrightarrow>
                   dict_get fs ''stock'' = dict_get [(''stock'', JInt 7)] ''stock'')"
    by (elim conjE)
  have e': "emitted st' = [(''stock_update'', JObj [(''product_id'', JInt 42), (''stock'', JInt 7)])]"
    using e by (simp add: s7 ex_state_def)
  have x': "\<exists>fs i. JObj fs \<in> set listed \<and> field_is ''id'' (JInt 42) (i, fs)
               \<and> dict_get fs ''stock'' = JInt 7"
    using x by (simp add: s7)
  have a': "\<forall>fs i. JObj fs \<in> set listed \<and> field_is ''id'' (JInt 42) (i, fs) \<longrightarrow>
               dict_get fs ''stock'' = JInt 7"
    using a[THEN mp, OF u1] by (simp add: s7)
  have c1: "\<exists>st' listed.
         update_stock ex_mongo False 42 (JObj [(''stock'', JInt 7)]) ex_state =
           Inr ((message_body ''Stock updated'', 200), st')
       \<and> emitted st' = [(''stock_update'', JObj [(''product_id'', JInt 42), (''stock'', JInt 7)])]
       \<and> get_products st' = Inr ((JArr listed, 200), st')
       \<and> (\<exists>fs i. JObj fs \<in> set listed \<and> field_is ''id'' (JInt 42) (i, fs)
               \<and> dict_get fs ''stock'' = JInt 7)
       \<and> (\<forall>fs i. JObj fs \<in> set listed \<and> field_is ''id'' (JInt 42) (i, fs) \<longrightarrow>
               dict_get fs ''stock'' = JInt 7)"
    using r e' l x' a' by (intro exI[of _ st'] exI[of _ listed] conjI)
  have c2: "update_stock ex_mongo False 42 (JObj []) ex_state =
      Inr ((error_body ''Missing stock value'', 400), ex_state)"
    by (rule update_stock_correct[of "[]" ex_mongo False 42 ex_state, THEN conjunct1,
               THEN mp, OF h2])
  have c3: "update_stock ex_mongo False 5 (JObj [(''stock'', JInt 7)]) ex_state =
       Inr ((error_body ''Product not found'', 404), ex_state)"
    by (rule update_stock_correct[of "[(''stock'', JInt 7)]" ex_mongo False 5 ex_state,
            THEN conjunct2, THEN conjunct1, THEN mp, OF conjI[OF h1 conjI[OF k3 conjI[OF w3 f3]]]])
  have n4: "\<forall>fs. JArr [] \<noteq> JObj fs" by simp
  have c4: "update_stock ex_mongo False 42 (JArr []) ex_state = Inl (AttributeError, ex_state)"
    by (rule update_stock_correct[of _ ex_mongo False 42 ex_state "JArr []",
            THEN conjunct2, THEN conjunct2, THEN conjunct2, THEN mp, OF n4])
  from h1 k1 w1 f1 u1 c1 h2 c2 k3 w3 f3 c3 n4 c4 show ?thesis by (intro conjI)
qed

section \<open>Saving and reading a cart\<close>

lemma field_is_update_other:
  "k' \<noteq> k \<Longrightarrow> field_is k' v (i, AList.update k w fs) = field_is k' v (i, fs)"
  by (simp add: field_is_def update_conv')

text \<open>
  A \<open>save_cart\<close> that the store takes succeeds; afterwards the first cart of the email
  holds the items saved. The cart is updated in place when there was one and added at the
  end otherwise.
\<close>

lemma save_cart_saved:
  assumes "truthy em" and "scalar em"
      and "dict_get kvs ''user_email'' = em"
      and "dict_get kvs ''items'' = items"
      and "items \<noteq> JNull"
      and "filter_ok m em"
      and "writable m [(''items'', items)] True"
  shows "\<exists>st1 d. save_cart m nid (JObj kvs) st =
                    Inr ((message_body ''Cart saved successfully'', 200), st1)
           \<and> find_one (field_is ''user_email'' em) (cart_collection st1) = Some d
           \<and> map_of (snd d) ''items'' = Some items
           \<and> users_collection st1 = users_collection st
           \<and> products_collection st1 = products_collection st
           \<and> orders_collection st1 = orders_collection st
           \<and> emitted st1 = emitted st
           \<and> (case find_one (field_is ''user_email'' em) (cart_collection st) of
                 None \<Rightarrow> cart_collection st1 =
                           cart_collection st @ [(nid, [(''user_email'', em), (''items'', items)])]
               | Some d0 \<Rightarrow> length (cart_collection st1) = length (cart_collection st))"
proof (cases "find_one (field_is ''user_email'' em) (cart_collection st)")
  case None
  define d where "d = (nid, [(''user_email'', em), (''items'', items)])"
  define st1 where "st1 = st\<lparr>cart_collection := cart_collection st @ [d]\<rparr>"
  have run: "save_cart m nid (JObj kvs) st =
      Inr ((message_body ''Cart saved successfully'', 200), st1)"
    using assms None
    by (simp add: save_cart_def query_ok store_match_scalar update_one_none insert_one_def
          set_fields_single st1_def d_def)
  have nomatch: "\<forall>x \<in> set (cart_collection st). \<not> field_is ''user_email'' em x"
    using None by (simp add: find_one_None_iff)
  have match: "field_is ''user_email'' em d"
    using assms(2) by (intro field_is_stored) (simp_all add: d_def dict_get_def)
  have "find_one (field_is ''user_email'' em) (cart_collection st1) = Some d"
    using find_one_append_match[OF nomatch match, of "[]"] by (simp add: st1_def)
  moreover have "map_of (snd d) ''items'' = Some items"
    by (simp add: d_def)
  ultimately show ?thesis
    using run None by (intro exI[of _ st1] exI[of _ d]) (simp add: st1_def d_def)
next
  case (Some d0)
  from find_one_split[OF Some] obtain xs ys where
    split: "cart_collection st = xs @ d0 # ys" "field_is ''user_email'' em d0"
      "\<forall>x \<in> set xs. \<not> field_is ''user_email'' em x"
    by blast
  define d where "d = (fst d0, AList.update ''items'' items (snd d0))"
  define st1 where "st1 = st\<lparr>cart_collection := xs @ d # ys\<rparr>"
  have run: "save_cart m nid (JObj kvs) st =
      Inr ((message_body ''Cart saved successfully'', 200), st1)"
    using assms update_one_found[OF split(3,2)]
    by (simp add: save_cart_def query_ok store_match_scalar split(1) set_fields_single
          st1_def d_def)
  have match: "field_is ''user_email'' em d"
    using split(2) field_is_update_other[of "''user_email''" "''items''" em "fst d0" items "snd d0"]
    by (simp add: d_def)
  have "find_one (field_is ''user_email'' em) (cart_collection st1) = Some d"
    using find_one_append_match[OF split(3) match] by (simp add: st1_def)
  moreover have "map_of (snd d) ''items'' = Some items"
    by (simp add: d_def update_conv')
  ultimately show ?thesis
    using run Some split(1) by (intro exI[of _ st1] exI[of _ d]) (simp add: st1_def)
qed

text \<open>
  Claim C2, as stated, fails. Ann saves a cart with one pen and then a cart whose item
  has the quantity \<open>2^63\<close>: the second \<open>save_cart\<close> raises, since the store cannot
  encode the number, and \<open>get_cart\<close> still returns the first cart.
\<close>

theorem save_cart_counterexample:
  "save_cart ex_mongo (Oid ''0000000000000000000000d2'')
      (JObj (ex_save ''ann@shop.test'' (JArr [JObj [(''id'', JInt 1), (''quantity'', JInt 1)]])))
      ex_state =
     Inr ((message_body ''Cart saved successfully'', 200),
          ex_state\<lparr>cart_collection :=
            [(Oid ''0000000000000000000000d1'',
              [(''user_email'', JStr ''ann@shop.test''),
               (''items'', JArr [JObj [(''id'', JInt 1), (''quantity'', JInt 1)]])])]\<rparr>)
   \<and> save_cart ex_mongo (Oid ''0000000000000000000000d3'')
      (JObj (ex_save ''ann@shop.test''
               (JArr [JObj [(''id'', JInt 1), (''quantity'', JInt (2 ^ 63))]])))
      (ex_state\<lparr>cart_collection :=
            [(Oid ''0000000000000000000000d1'',
              [(''user_email'', JStr ''ann@shop.test''),
               (''items'', JArr [JObj [(''id'', JInt 1), (''quantity'', JInt 1)]])])]\<rparr>) =
     Inl (StoreError,
          ex_state\<lparr>cart_collection :=
            [(Oid ''0000000000000000000000d1'',
              [(''user_email'', JStr ''ann@shop.test''),
               (''items'', JArr [JObj [(''id'', JInt 1), (''quantity'', JInt 1)]])])]\<rparr>)
   \<and> get_cart ''ann@shop.test''
      (ex_state\<lparr>cart_collection :=
            [(Oid ''0000000000000000000000d1'',
              [(''user_email'', JStr ''ann@shop.test''),
               (''items'', JArr [JObj [(''id'', JInt 1), (''quantity'', JInt 1)]])])]\<rparr>) =
     Inr ((JArr [JObj [(''id'', JInt 1), (''quantity'', JInt 1)]], 200),
          ex_state\<lparr>cart_collection :=
            [(Oid ''0000000000000000000000d1'',
              [(''user_email'', JStr ''ann@shop.test''),
               (''items'', JArr [JObj [(''id'', JInt 1), (''quantity'', JInt 1)]])])]\<rparr>)
   \<and> JArr [JObj [(''id'', JInt 1), (''quantity'', JInt 1)]]
       \<noteq> JArr [JObj [(''id'', JInt 1), (''quantity'', JInt (2 ^ 63))]]"
proof -
  let ?i1 = "JArr [JObj [(''id'', JInt 1), (''quantity'', JInt 1)]]"
  let ?i2 = "JArr [JObj [(''id'', JInt 1), (''quantity'', JInt (2 ^ 63))]]"
  let ?st1 = "ex_state\<lparr>cart_collection :=
            [(Oid ''0000000000000000000000d1'',
              [(''user_email'', JStr ''ann@shop.test''), (''items'', ?i1)])]\<rparr>"
  have a: "save_cart ex_mongo (Oid ''0000000000000000000000d2'')
      (JObj (ex_save ''ann@shop.test'' ?i1)) ex_state =
     Inr ((message_body ''Cart saved successfully'', 200), ?st1)"
    by (simp add: save_cart_def ex_save_def dict_get_def Let_def ex_store_defs update_one_def
          find_one_def set_fields_def ex_defs)
  have b: "save_cart ex_mongo (Oid ''0000000000000000000000d3'')
      (JObj (ex_save ''ann@shop.test'' ?i2)) ?st1 = Inl (StoreError, ?st1)"
    by (simp add: save_cart_def ex_save_def dict_get_def Let_def writable_def)
  have c: "get_cart ''ann@shop.test'' ?st1 = Inr ((?i1, 200), ?st1)"
    by (simp add: get_cart_def find_one_def field_is_def Let_def ex_state_def)
  have d: "?i1 \<noteq> ?i2" by simp
  from a b c d show ?thesis by (intro conjI)
qed

text \<open>
  Claim C2, amended. For a non-empty email \<open>e\<close> (the route of \<open>get_cart\<close> has no
  empty segment) and items \<open>i1\<close>, \<open>i2\<close> that are not null and that the store takes
  (\<open>filter_ok\<close>, \<open>writable\<close>: integers within 64 bits, nothing refused): two calls of
  \<open>save_cart\<close> for \<open>e\<close> both answer 200 and \<open>get_cart\<close> then returns exactly
  \<open>i2\<close> with status 200; the first call adds the cart document when no cart matched
  \<open>e\<close>, and the second call adds none. For an email that no cart matches,
  \<open>get_cart\<close> returns the empty list with status 200.
\<close>

theorem save_cart_replaces:
  "(e \<noteq> [] \<and> filter_ok m (JStr e)
      \<and> dict_get b1 ''user_email'' = JStr e \<and> dict_get b1 ''items'' = i1 \<and> i1 \<noteq> JNull
      \<and> writable m [(''items'', i1)] True
      \<and> dict_get b2 ''user_email'' = JStr e \<and> dict_get b2 ''items'' = i2 \<and> i2 \<noteq> JNull
      \<and> writable m [(''items'', i2)] True \<longrightarrow>
      (\<exists>st1 st2.
          save_cart m n1 (JObj b1) st = Inr ((message_body ''Cart saved successfully'', 200), st1)
        \<and> save_cart m n2 (JObj b2) st1 = Inr ((message_body ''Cart saved successfully'', 200), st2)
        \<and> get_cart e st2 = Inr ((i2, 200), st2)
        \<and> (find_one (field_is ''user_email'' (JStr e)) (cart_collection st) = None \<longrightarrow>
             cart_collection st1 =
               cart_collection st @ [(n1, [(''user_email'', JStr e), (''items'', i1)])])
        \<and> length (cart_collection st2) = length (cart_collection st1)))
 \<and> (find_one (field_is ''user_email'' (JStr e)) (cart_collection st) = None \<longrightarrow>
      get_cart e st = Inr ((JArr [], 200), st))"
proof (intro conjI impI)
  assume a: "e \<noteq> [] \<and> filter_ok m (JStr e)
      \<and> dict_get b1 ''user_email'' = JStr e \<and> dict_get b1 ''items'' = i1 \<and> i1 \<noteq> JNull
      \<and> writable m [(''items'', i1)] True
      \<and> dict_get b2 ''user_email'' = JStr e \<and> dict_get b2 ''items'' = i2 \<and> i2 \<noteq> JNull
      \<and> writable m [(''items'', i2)] True"
  then have t: "truthy (JStr e)" and sc: "scalar (JStr e)" and fok: "filter_ok m (JStr e)"
    and b1: "dict_get b1 ''user_email'' = JStr e" "dict_get b1 ''items'' = i1" "i1 \<noteq> JNull"
      "writable m [(''items'', i1)] True"
    and b2: "dict_get b2 ''user_email'' = JStr e" "dict_get b2 ''items'' = i2" "i2 \<noteq> JNull"
      "writable m [(''items'', i2)] True"
    by simp_all
  from save_cart_saved[OF t sc b1(1,2,3) fok b1(4), of n1 st] obtain st1 d1 where
    r1: "save_cart m n1 (JObj b1) st = Inr ((message_body ''Cart saved successfully'', 200), st1)"
    and f1: "find_one (field_is ''user_email'' (JStr e)) (cart_collection st1) = Some d1"
    and c1: "case find_one (field_is ''user_email'' (JStr e)) (cart_collection st) of
                 None \<Rightarrow> cart_collection st1 =
                           cart_collection st @ [(n1, [(''user_email'', JStr e), (''items'', i1)])]
               | Some d0 \<Rightarrow> length (cart_collection st1) = length (cart_collection st)"
    by (elim exE conjE)
  from save_cart_saved[OF t sc b2(1,2,3) fok b2(4), of n2 st1] obtain st2 d2 where
    r2: "save_cart m n2 (JObj b2) st1 = Inr ((message_body ''Cart saved successfully'', 200), st2)"
    and f2: "find_one (field_is ''user_email'' (JStr e)) (cart_collection st2) = Some d2"
    and m2: "map_of (snd d2) ''items'' = Some i2"
    and c2: "case find_one (field_is ''user_email'' (JStr e)) (cart_collection st1) of
                 None \<Rightarrow> cart_collection st2 =
                           cart_collection st1 @ [(n2, [(''user_email'', JStr e), (''items'', i2)])]
               | Some d0 \<Rightarrow> length (cart_collection st2) = length (cart_collection st1)"
    by (elim exE conjE)
  from m2 have ne: "snd d2 \<noteq> []" by auto
  have g: "get_cart e st2 = Inr ((i2, 200), st2)"
    by (simp add: get_cart_def f2 m2 ne)
  have len: "length (cart_collection st2) = length (cart_collection st1)"
    using c2 f1 by simp
  have ins: "find_one (field_is ''user_email'' (JStr e)) (cart_collection st) = None \<longrightarrow>
             cart_collection st1 =
               cart_collection st @ [(n1, [(''user_email'', JStr e), (''items'', i1)])]"
    using c1 by (auto split: option.splits)
  from r1 r2 g ins len
  show "\<exists>st1 st2.
          save_cart m n1 (JObj b1) st = Inr ((message_body ''Cart saved successfully'', 200), st1)
        \<and> save_cart m n2 (JObj b2) st1 = Inr ((message_body ''Cart saved successfully'', 200), st2)
        \<and> get_cart e st2 = Inr ((i2, 200), st2)
        \<and> (find_one (field_is ''user_email'' (JStr e)) (cart_collection st) = None \<longrightarrow>
             cart_collection st1 =
               cart_collection st @ [(n1, [(''user_email'', JStr e), (''items'', i1)])])
        \<and> length (cart_collection st2) = length (cart_collection st1)"
    by (intro exI[of _ st1] exI[of _ st2] conjI)
next
  assume "find_one (field_is ''user_email'' (JStr e)) (cart_collection st) = None"
  then show "get_cart e st = Inr ((JArr [], 200), st)"
    by (simp add: get_cart_def)
qed

text \<open>
  In the small store, for an email without a cart: the first save adds the cart, the
  second replaces its items, and before both the cart reads as empty.
\<close>

theorem save_cart_replaces_witness:
  "''cat@shop.test'' \<noteq> []
   \<and> filter_ok ex_mongo (JStr ''cat@shop.test'')
   \<and> dict_get (ex_save ''cat@shop.test'' (JArr [JObj [(''id'', JInt 1), (''quantity'', JInt 1)]]))
        ''user_email'' = JStr ''cat@shop.test''
   \<and> dict_get (ex_save ''cat@shop.test'' (JArr [JObj [(''id'', JInt 1), (''quantity'', JInt 1)]]))
        ''items'' = JArr [JObj [(''id'', JInt 1), (''quantity'', JInt 1)]]
   \<and> JArr [JObj [(''id'', JInt 1), (''quantity'', JInt 1)]] \<noteq> JNull
   \<and> writable ex_mongo [(''items'', JArr [JObj [(''id'', JInt 1), (''quantity'', JInt 1)]])] True
   \<and> dict_get (ex_save ''cat@shop.test'' (JArr [JObj [(''id'', JInt 42), (''quantity'', JInt 3)]]))
        ''user_email'' = JStr ''cat@shop.test''
   \<and> dict_get (ex_save ''cat@shop.test'' (JArr [JObj [(''id'', JInt 42), (''quantity'', JInt 3)]]))
        ''items'' = JArr [JObj [(''id'', JInt 42), (''quantity'', JInt 3)]]
   \<and> JArr [JObj [(''id'', JInt 42), (''quantity'', JInt 3)]] \<noteq> JNull
   \<and> writable ex_mongo [(''items'', JArr [JObj [(''id'', JInt 42), (''quantity'', JInt 3)]])] True
   \<and> find_one (field_is ''user_email'' (JStr ''cat@shop.test'')) (cart_collection ex_state) = None
   \<and> (\<exists>st1 st2.
         save_cart ex_mongo (Oid ''0000000000000000000000d2'')
           (JObj (ex_save ''cat@shop.test''
                    (JArr [JObj [(''id'', JInt 1), (''quantity'', JInt 1)]]))) ex_state =
           Inr ((message_body ''Cart saved successfully'', 200), st1)
       \<and> save_cart ex_mongo (Oid ''0000000000000000000000d3'')
           (JObj (ex_save ''cat@shop.test''
                    (JArr [JObj [(''id'', JInt 42), (''quantity'', JInt 3)]]))) st1 =
           Inr ((message_body ''Cart saved successfully'', 200), st2)
       \<and> get_cart ''cat@shop.test'' st2 =
           Inr ((JArr [JObj [(''id'', JInt 42), (''quantity'', JInt 3)]], 200), st2)
       \<and> cart_collection st1 =
           [ex_cart_ann,
            (Oid ''0000000000000000000000d2'',
             [(''user_email'', JStr ''cat@shop.test''),
              (''items'', JArr [JObj [(''id'', JInt 1), (''quantity'', JInt 1)]])])]
       \<and> length (cart_collection st2) = 2)
   \<and> get_cart ''cat@shop.test'' ex_state = Inr ((JArr [], 200), ex_state)"
proof -
  let ?i1 = "JArr [JObj [(''id'', JInt 1), (''quantity'', JInt 1)]]"
  let ?i2 = "JArr [JObj [(''id'', JInt 42), (''quantity'', JInt 3)]]"
  let ?b1 = "ex_save ''cat@shop.test'' ?i1"
  let ?b2 = "ex_save ''cat@shop.test'' ?i2"
  have e: "''cat@shop.test'' \<noteq> []" by simp
  have k: "filter_ok ex_mongo (JStr ''cat@shop.test'')"
    by (simp add: filter_ok_def ex_mongo_def)
  have b1: "dict_get ?b1 ''user_email'' = JStr ''cat@shop.test''" "dict_get ?b1 ''items'' = ?i1"
    by (simp_all add: ex_save_def dict_get_def)
  have n1: "?i1 \<noteq> JNull" by simp
  have w1: "writable ex_mongo [(''items'', ?i1)] True"
    by (simp add: writable_def ex_mongo_def)
  have b2: "dict_get ?b2 ''user_email'' = JStr ''cat@shop.test''" "dict_get ?b2 ''items'' = ?i2"
    by (simp_all add: ex_save_def dict_get_def)
  have n2: "?i2 \<noteq> JNull" by simp
  have w2: "writable ex_mongo [(''items'', ?i2)] True"
    by (simp add: writable_def ex_mongo_def)
  have f: "find_one (field_is ''user_email'' (JStr ''cat@shop.test'')) (cart_collection ex_state)
             = None"
    by (simp add: ex_defs find_one_def field_is_def)
  note t = save_cart_replaces[of "''cat@shop.test''" ex_mongo ?b1 ?i1 ?b2 ?i2
             "Oid ''0000000000000000000000d2''" ex_state "Oid ''0000000000000000000000d3''"]
  have hyp: "''cat@shop.test'' \<noteq> [] \<and> filter_ok ex_mongo (JStr ''cat@shop.test'')
      \<and> dict_get ?b1 ''user_email'' = JStr ''cat@shop.test''
      \<and> dict_get ?b1 ''items'' = ?i1 \<and> ?i1 \<noteq> JNull
      \<and> writable ex_mongo [(''items'', ?i1)] True
      \<and> dict_get ?b2 ''user_email'' = JStr ''cat@shop.test''
      \<and> dict_get ?b2 ''items'' = ?i2 \<and> ?i2 \<noteq> JNull
      \<and> writable ex_mongo [(''items'', ?i2)] True"
    using e k b1 n1 w1 b2 n2 w2 by (intro conjI)
  from t[THEN conjunct1, rule_format, OF hyp] obtain st1 st2 where
    r1: "save_cart ex_mongo (Oid ''0000000000000000000000d2'') (JObj ?b1) ex_state =
           Inr ((message_body ''Cart saved successfully'', 200), st1)"
    and r2: "save_cart ex_mongo (Oid ''0000000000000000000000d3'') (JObj ?b2) st1 =
           Inr ((message_body ''Cart saved successfully'', 200), st2)"
    and g: "get_cart ''cat@shop.test'' st2 = Inr ((?i2, 200), st2)"
    and i: "find_one (field_is ''user_email'' (JStr ''cat@shop.test'')) (cart_collection ex_state)
              = None \<longrightarrow>
            cart_collection st1 = cart_collection ex_state @
              [(Oid ''0000000000000000000000d2'',
                [(''user_email'', JStr ''cat@shop.test''), (''items'', ?i1)])]"
    and l: "length (cart_collection st2) = length (cart_collection st1)"
    by (elim exE conjE)
  have c1: "cart_collection st1 =
           [ex_cart_ann,
            (Oid ''0000000000000000000000d2'',
             [(''user_email'', JStr ''cat@shop.test''), (''items'', ?i1)])]"
    using i f by (simp add: ex_state_def)
  have l2: "length (cart_collection st2) = 2"
    using l c1 by simp
  have c: "\<exists>st1 st2.
         save_cart ex_mongo (Oid ''0000000000000000000000d2'') (JObj ?b1) ex_state =
           Inr ((message_body ''Cart saved successfully'', 200), st1)
       \<and> save_cart ex_mongo (Oid ''0000000000000000000000d3'') (JObj ?b2) st1 =
           Inr ((message_body ''Cart saved successfully'', 200), st2)
       \<and> get_cart ''cat@shop.test'' st2 = Inr ((?i2, 200), st2)
       \<and> cart_collection st1 =
           [ex_cart_ann,
            (Oid ''0000000000000000000000d2'',
             [(''user_email'', JStr ''cat@shop.test''), (''items'', ?i1)])]
       \<and> length (cart_collection st2) = 2"
    using r1 r2 g c1 l2 by (intro exI[of _ st1] exI[of _ st2] conjI)
  have g0: "get_cart ''cat@shop.test'' ex_state = Inr ((JArr [], 200), ex_state)"
    by (rule t[THEN conjunct2, THEN mp, OF f])
  from e k b1 n1 w1 b2 n2 w2 f c g0 show ?thesis by (intro conjI)
qed

section \<open>Accounts\<close>







section \<open>Placing an order\<close>

lemma enrich_item_Inr:
  "enrich_item m ps x = Inr y \<Longrightarrow>
     \<exists>item s. x = JObj item \<and> y = JObj s
       \<and> filter_ok m (dict_get item ''id'')
       \<and> dict_get s ''image'' =
           (case find_one (store_match m ''id'' (dict_get item ''id'')) ps of
              None \<Rightarrow> JStr []
            | Some p \<Rightarrow> (case map_of (snd p) ''image'' of None \<Rightarrow> JStr [] | Some v \<Rightarrow> v))
       \<and> (\<forall>k. k \<noteq> ''image'' \<longrightarrow> map_of s k = map_of item k)"
  by (cases x)
     (auto simp: dict_get_update_same update_conv' query_def split: sum.splits if_splits)

lemma enrich_item_obj:
  "filter_ok m (dict_get item ''id'') \<Longrightarrow> \<exists>y. enrich_item m ps (JObj item) = Inr y"
  by (simp add: query_ok)

text \<open>The loop returns the items it was given, each through \<open>enrich_item\<close>, in order.\<close>

lemma enrich_loop_Inr:
  "enrich_loop m ps xs acc = Inr r \<Longrightarrow>
     \<exists>ys. r = acc @ ys \<and> length ys = length xs
          \<and> (\<forall>k < length xs. enrich_item m ps (xs ! k) = Inr (ys ! k))"
proof (induction xs arbitrary: acc)
  case Nil
  then show ?case by simp
next
  case (Cons x xs)
  from Cons.prems obtain y where y: "enrich_item m ps x = Inr y"
    and rest: "enrich_loop m ps xs (acc @ [y]) = Inr r"
    by (auto split: sum.splits)
  from Cons.IH[OF rest] obtain ys where
    ys: "r = (acc @ [y]) @ ys" "length ys = length xs"
      "\<forall>k < length xs. enrich_item m ps (xs ! k) = Inr (ys ! k)"
    by blast
  have "\<forall>k < length (x # xs). enrich_item m ps ((x # xs) ! k) = Inr ((y # ys) ! k)"
    using y ys(3) by (auto simp: nth_Cons split: nat.splits)
  with ys(1,2) show ?case
    by (intro exI[of _ "y # ys"]) simp
qed


lemma enrich_loop_needs_objects:
  "enrich_loop m ps xs acc = Inr r \<Longrightarrow>
     \<forall>x \<in> set xs. \<exists>item. x = JObj item \<and> filter_ok m (dict_get item ''id'')"
proof (induction xs arbitrary: acc)
  case Nil
  then show ?case by simp
next
  case (Cons x xs)
  from Cons.prems obtain y where y: "enrich_item m ps x = Inr y"
    and rest: "enrich_loop m ps xs (acc @ [y]) = Inr r"
    by (auto split: sum.splits)
  from enrich_item_Inr[OF y] Cons.IH[OF rest] show ?case by auto
qed

text \<open>Only a list passes the loop: the elements of a string or of a dict are strings.\<close>

lemma py_iter_enrich:
  assumes "truthy items" and "py_iter items = Inr its" and "enrich_loop m ps its acc = Inr r"
  shows "items = JArr its"
proof (cases items)
  case (JStr s)
  with assms(1) obtain c cs where "s = c # cs" by (cases s) auto
  with JStr assms(2,3) show ?thesis by auto
next
  case (JObj kvs)
  with assms(1) obtain kv rest where "kvs = kv # rest" by (cases kvs) auto
  with JObj assms(2,3) show ?thesis by auto
qed (use assms in auto)

lemma create_order_missing:
  "order_fields_missing kvs \<Longrightarrow>
     create_order m now nid (JObj kvs) st =
       Inr ((error_body ''Missing required order fields'', 400), st)"
  by (simp add: create_order_def)

lemma create_order_present:
  "\<not> order_fields_missing kvs \<Longrightarrow>
     create_order m now nid (JObj kvs) st =
       (case py_iter (dict_get kvs ''items'') of
          Inl e \<Rightarrow> Inl (e, st)
        | Inr its \<Rightarrow>
            (case enrich_loop m (products_collection st) its [] of
               Inl e \<Rightarrow> Inl (e, st)
             | Inr enriched_items \<Rightarrow>
                 if \<not> writable m (order_doc kvs enriched_items now) True
                 then Inl (StoreError, st)
                 else Inr ((message_body ''Order placed successfully'', 201),
                           st\<lparr>orders_collection := orders_collection st @
                                [(nid, order_doc kvs enriched_items now)]\<rparr>)))"
  by (simp add: create_order_def Let_def insert_one_def split: sum.splits)

text \<open>
  Claim C6. When \<open>create_order\<close> answers 201: the body was a JSON object whose
  \<open>items\<close> is a list of objects; exactly one order is appended, with the id the store
  gave it, status "Pending", \<open>cancellationRequested\<close> false, \<open>order_date\<close> the
  clock reading passed in, and the email, city, pincode and total price of the body; its
  items are the items of the body in order, each with its other keys unchanged and with
  \<open>image\<close> set to the image of the first product that the filter
  \<^verbatim>\<open>{id: item.get('id')}\<close> matches (for a scalar id, the first product whose \<open>id\<close>
  equals it), or to the empty string when there is no such product or it has no image;
  the products (their stock included) and the other collections are unchanged.
\<close>

theorem create_order_stored:
  assumes "create_order m now nid data st = Inr ((body, 201), st')"
  shows "\<exists>kvs items stored order.
            data = JObj kvs \<and> dict_get kvs ''items'' = JArr items
          \<and> orders_collection st' = orders_collection st @ [(nid, order)]
          \<and> dict_get order ''status'' = JStr ''Pending''
          \<and> dict_get order ''cancellationRequested'' = JBool False
          \<and> dict_get order ''order_date'' = JStr now
          \<and> dict_get order ''user_email'' = dict_get kvs ''user_email''
          \<and> dict_get order ''city'' = dict_get kvs ''city''
          \<and> dict_get order ''pincode'' = dict_get kvs ''pincode''
          \<and> dict_get order ''total_price'' = dict_get kvs ''total_price''
          \<and> dict_get order ''items'' = JArr stored
          \<and> length stored = length items
          \<and> (\<forall>k < length items. \<exists>item s.
                 items ! k = JObj item \<and> stored ! k = JObj s
               \<and> dict_get s ''image'' =
                   (case find_one (store_match m ''id'' (dict_get item ''id''))
                           (products_collection st) of
                      None \<Rightarrow> JStr []
                    | Some p \<Rightarrow> (case map_of (snd p) ''image'' of None \<Rightarrow> JStr [] | Some v \<Rightarrow> v))
               \<and> (scalar (dict_get item ''id'') \<longrightarrow>
                    store_match m ''id'' (dict_get item ''id'')
                      = field_is ''id'' (dict_get item ''id''))
               \<and> (\<forall>key. key \<noteq> ''image'' \<longrightarrow> map_of s key = map_of item key))
          \<and> products_collection st' = products_collection st
          \<and> users_collection st' = users_collection st
          \<and> cart_collection st' = cart_collection st
          \<and> emitted st' = emitted st"
proof -
  from assms obtain kvs where data: "data = JObj kvs"
    by (cases data) (simp_all add: create_order_def)
  have present: "\<not> order_fields_missing kvs"
  proof
    assume "order_fields_missing kvs"
    from create_order_missing[OF this, of m now nid st] assms data show False by simp
  qed
  note run = create_order_present[OF present, of m now nid st]
  from assms data run obtain its stored where
    its: "py_iter (dict_get kvs ''items'') = Inr its"
    and loop: "enrich_loop m (products_collection st) its [] = Inr stored"
    and st': "st' = st\<lparr>orders_collection := orders_collection st @
                  [(nid, order_doc kvs stored now)]\<rparr>"
    by (auto split: sum.splits if_splits)
  define order where "order = order_doc kvs stored now"
  from present have "truthy (dict_get kvs ''items'')"
    by (simp add: order_fields_missing_def)
  from py_iter_enrich[OF this its loop] have items: "dict_get kvs ''items'' = JArr its" .
  from enrich_loop_Inr[OF loop] have len: "length stored = length its"
    and each: "\<forall>k < length its. enrich_item m (products_collection st) (its ! k) = Inr (stored ! k)"
    by auto
  have per_item: "\<forall>k < length its. \<exists>item s.
                 its ! k = JObj item \<and> stored ! k = JObj s
               \<and> dict_get s ''image'' =
                   (case find_one (store_match m ''id'' (dict_get item ''id''))
                           (products_collection st) of
                      None \<Rightarrow> JStr []
                    | Some p \<Rightarrow> (case map_of (snd p) ''image'' of None \<Rightarrow> JStr [] | Some v \<Rightarrow> v))
               \<and> (scalar (dict_get item ''id'') \<longrightarrow>
                    store_match m ''id'' (dict_get item ''id'')
                      = field_is ''id'' (dict_get item ''id''))
               \<and> (\<forall>key. key \<noteq> ''image'' \<longrightarrow> map_of s key = map_of item key)"
  proof (intro allI impI)
    fix k assume "k < length its"
    with each have "enrich_item m (products_collection st) (its ! k) = Inr (stored ! k)"
      by simp
    from enrich_item_Inr[OF this] obtain item s where
      "its ! k = JObj item" "stored ! k = JObj s"
      "dict_get s ''image'' =
           (case find_one (store_match m ''id'' (dict_get item ''id'')) (products_collection st) of
              None \<Rightarrow> JStr []
            | Some p \<Rightarrow> (case map_of (snd p) ''image'' of None \<Rightarrow> JStr [] | Some v \<Rightarrow> v))"
      "\<forall>k. k \<noteq> ''image'' \<longrightarrow> map_of s k = map_of item k"
      by (elim exE conjE)
    then show "\<exists>item s.
                 its ! k = JObj item \<and> stored ! k = JObj s
               \<and> dict_get s ''image'' =
                   (case find_one (store_match m ''id'' (dict_get item ''id''))
                           (products_collection st) of
                      None \<Rightarrow> JStr []
                    | Some p \<Rightarrow> (case map_of (snd p) ''image'' of None \<Rightarrow> JStr [] | Some v \<Rightarrow> v))
               \<and> (scalar (dict_get item ''id'') \<longrightarrow>
                    store_match m ''id'' (dict_get item ''id'')
                      = field_is ''id'' (dict_get item ''id''))
               \<and> (\<forall>key. key \<noteq> ''image'' \<longrightarrow> map_of s key = map_of item key)"
      by (intro exI[of _ item] exI[of _ s] conjI impI store_match_scalar)
  qed
  have fields:
    "dict_get order ''status'' = JStr ''Pending''"
    "dict_get order ''cancellationRequested'' = JBool False"
    "dict_get order ''order_date'' = JStr now"
    "dict_get order ''user_email'' = dict_get kvs ''user_email''"
    "dict_get order ''city'' = dict_get kvs ''city''"
    "dict_get order ''pincode'' = dict_get kvs ''pincode''"
    "dict_get order ''total_price'' = dict_get kvs ''total_price''"
    "dict_get order ''items'' = JArr stored"
    by (simp_all add: order_def order_doc_def dict_get_def)
  have frame: "orders_collection st' = orders_collection st @ [(nid, order)]"
    "products_collection st' = products_collection st"
    "users_collection st' = users_collection st"
    "cart_collection st' = cart_collection st"
    "emitted st' = emitted st"
    by (simp_all add: st' order_def)
  from data items frame fields len per_item show ?thesis
    by (intro exI[of _ kvs] exI[of _ its] exI[of _ stored] exI[of _ order] conjI)
qed

text \<open>
  In the small store, Ann orders the pen, the mug and an unknown product for 9.99: the
  stored items carry the pen's image and two empty strings.
\<close>

theorem create_order_stored_witness:
  "create_order ex_mongo ''2024-03-01T12:00:00'' (Oid ''0000000000000000000000c3'')
     (JObj (ex_order_body (JArr ex_items) (JStr ''411001'') (JFloat 9.99))) ex_state
     = Inr ((message_body ''Order placed successfully'', 201), ex_created)
   \<and> (\<exists>stored order.
         orders_collection ex_created =
           orders_collection ex_state @ [(Oid ''0000000000000000000000c3'', order)]
       \<and> dict_get order ''status'' = JStr ''Pending''
       \<and> dict_get order ''cancellationRequested'' = JBool False
       \<and> dict_get order ''order_date'' = JStr ''2024-03-01T12:00:00''
       \<and> dict_get order ''items'' = JArr stored
       \<and> length stored = 3
       \<and> products_collection ex_created = [ex_pen, ex_mug])"
proof -
  have run: "create_order ex_mongo ''2024-03-01T12:00:00'' (Oid ''0000000000000000000000c3'')
     (JObj (ex_order_body (JArr ex_items) (JStr ''411001'') (JFloat 9.99))) ex_state
     = Inr ((message_body ''Order placed successfully'', 201), ex_created)"
    by (simp add: create_order_def order_fields_missing_def order_doc_def Let_def
          ex_order_body_def ex_items_def dict_get_def insert_one_def find_one_def
          query_scalar ex_filter_ok ex_writable field_is_def ex_created_def ex_defs)
  from create_order_stored[OF run] obtain kvs items stored order where
    big: "JObj (ex_order_body (JArr ex_items) (JStr ''411001'') (JFloat 9.99)) = JObj kvs
          \<and> dict_get kvs ''items'' = JArr items
          \<and> orders_collection ex_created =
              orders_collection ex_state @ [(Oid ''0000000000000000000000c3'', order)]
          \<and> dict_get order ''status'' = JStr ''Pending''
          \<and> dict_get order ''cancellationRequested'' = JBool False
          \<and> dict_get order ''order_date'' = JStr ''2024-03-01T12:00:00''
          \<and> dict_get order ''user_email'' = dict_get kvs ''user_email''
          \<and> dict_get order ''city'' = dict_get kvs ''city''
          \<and> dict_get order ''pincode'' = dict_get kvs ''pincode''
          \<and> dict_get order ''total_price'' = dict_get kvs ''total_price''
          \<and> dict_get order ''items'' = JArr stored
          \<and> length stored = length items
          \<and> (\<forall>k < length items. \<exists>item s.
                 items ! k = JObj item \<and> stored ! k = JObj s
               \<and> dict_get s ''image'' =
                   (case find_one (store_match ex_mongo ''id'' (dict_get item ''id''))
                           (products_collection ex_state) of
                      None \<Rightarrow> JStr []
                    | Some p \<Rightarrow> (case map_of (snd p) ''image'' of None \<Rightarrow> JStr [] | Some v \<Rightarrow> v))
               \<and> (scalar (dict_get item ''id'') \<longrightarrow>
                    store_match ex_mongo ''id'' (dict_get item ''id'')
                      = field_is ''id'' (dict_get item ''id''))
               \<and> (\<forall>key. key \<noteq> ''image'' \<longrightarrow> map_of s key = map_of item key))
          \<and> products_collection ex_created = products_collection ex_state
          \<and> users_collection ex_created = users_collection ex_state
          \<and> cart_collection ex_created = cart_collection ex_state
          \<and> emitted ex_created = emitted ex_state"
    by (elim exE)
  from big have d: "JObj (ex_order_body (JArr ex_items) (JStr ''411001'') (JFloat 9.99)) = JObj kvs"
    by (elim conjE)
  from big have i: "dict_get kvs ''items'' = JArr items" by (elim conjE)
  from big have o: "orders_collection ex_created =
              orders_collection ex_state @ [(Oid ''0000000000000000000000c3'', order)]"
    by (elim conjE)
  from big have f1: "dict_get order ''status'' = JStr ''Pending''" by (elim conjE)
  from big have f2: "dict_get order ''cancellationRequested'' = JBool False" by (elim conjE)
  from big have f3: "dict_get order ''order_date'' = JStr ''2024-03-01T12:00:00''"
    by (elim conjE)
  from big have f4: "dict_get order ''items'' = JArr stored" by (elim conjE)
  from big have l: "length stored = length items" by (elim conjE)
  from big have p: "products_collection ex_created = products_collection ex_state"
    by (elim conjE)
  from d have "kvs = ex_order_body (JArr ex_items) (JStr ''411001'') (JFloat 9.99)"
    by simp
  with i have "items = ex_items"
    by (simp add: ex_order_body_def dict_get_def)
  with l have l3: "length stored = 3"
    by (simp add: ex_items_def)
  from p have p2: "products_collection ex_created = [ex_pen, ex_mug]"
    by (simp add: ex_state_def)
  have "\<exists>stored order.
         orders_collection ex_created =
           orders_collection ex_state @ [(Oid ''0000000000000000000000c3'', order)]
       \<and> dict_get order ''status'' = JStr ''Pending''
       \<and> dict_get order ''cancellationRequested'' = JBool False
       \<and> dict_get order ''order_date'' = JStr ''2024-03-01T12:00:00''
       \<and> dict_get order ''items'' = JArr stored
       \<and> length stored = 3
       \<and> products_collection ex_created = [ex_pen, ex_mug]"
    using o f1 f2 f3 f4 l3 p2 by (intro exI[of _ stored] exI[of _ order] conjI)
  with run show ?thesis by (intro conjI)
qed




section \<open>Responses and escaping exceptions\<close>
























section \<open>Cancellation requests\<close>

lemma kept_order:
  "d' \<in> set ds' \<Longrightarrow> set ds' \<subseteq> set ds \<Longrightarrow>
     \<exists>d \<in> set ds. fst d = fst d' \<and> (cancellation_requested d \<longrightarrow> cancellation_requested d')"
  by (intro bexI[of _ d']) auto

lemma updated_order:
  assumes "d' \<in> set ds \<or> (\<exists>d \<in> set ds. d' = (fst d, f (snd d)))"
      and "\<And>fs. dict_get fs ''cancellationRequested'' = JBool True \<Longrightarrow>
                 dict_get (f fs) ''cancellationRequested'' = JBool True"
  shows "\<exists>d \<in> set ds. fst d = fst d' \<and> (cancellation_requested d \<longrightarrow> cancellation_requested d')"
  using assms(1)
proof
  assume "d' \<in> set ds"
  then show ?thesis by (intro bexI[of _ d']) auto
next
  assume "\<exists>d \<in> set ds. d' = (fst d, f (snd d))"
  then obtain d where "d \<in> set ds" "d' = (fst d, f (snd d))" by blast
  with assms(2)[of "snd d"] show ?thesis by (intro bexI[of _ d]) auto
qed

lemma final_Inr: "r = Inr (resp, st') \<Longrightarrow> final r = st'"
  by (simp add: final_def)

text \<open>
  What one request does to the orders, whether it is answered or an exception escapes:
  every order present afterwards is an order that was present before, with the same id
  and with \<open>cancellationRequested\<close> still true if it was true, or it is the order that
  \<open>create_order\<close> has just inserted under the new id, with \<open>cancellationRequested\<close>
  false.
\<close>

lemma register_orders:
  "orders_collection (final (register m w slt nid data st)) = orders_collection st"
  by (simp add: register_def final_def Let_def split: json.splits sum.splits prod.splits)

lemma login_orders:
  "orders_collection (final (login m w data st)) = orders_collection st"
  by (simp add: login_def final_def Let_def split: json.splits sum.splits option.splits)

lemma update_stock_orders:
  "orders_collection (final (update_stock m raises p data st)) = orders_collection st"
  by (simp add: update_stock_def final_def Let_def split: json.splits sum.splits prod.splits)

lemma save_cart_orders:
  "orders_collection (final (save_cart m nid data st)) = orders_collection st"
  by (simp add: save_cart_def final_def Let_def split: json.splits sum.splits prod.splits)

lemma update_admin_credentials_orders:
  "orders_collection (final (update_admin_credentials m w slt data st)) = orders_collection st"
  by (simp add: update_admin_credentials_def final_def Let_def
        split: json.splits sum.splits prod.splits)

lemma create_order_orders:
  "orders_collection (final (create_order m now nid data st)) = orders_collection st
     \<or> (\<exists>order. orders_collection (final (create_order m now nid data st))
                  = orders_collection st @ [(nid, order)]
                \<and> dict_get order ''cancellationRequested'' = JBool False)"
  by (simp add: create_order_def final_def Let_def insert_one_def order_doc_def dict_get_def
        split: json.splits sum.splits)

lemma request_cancellation_orders:
  assumes "d' \<in> set (orders_collection (final (request_cancellation order_id st)))"
  shows "\<exists>d \<in> set (orders_collection st). fst d = fst d'
           \<and> (cancellation_requested d \<longrightarrow> cancellation_requested d')"
proof (cases "ObjectId order_id")
  case (Inl err)
  with assms have "d' \<in> set (orders_collection st)"
    by (simp add: request_cancellation_def final_def)
  then show ?thesis by (intro kept_order[of d']) auto
next
  case (Inr oid)
  obtain r os where
    u: "update_one (id_is oid) (set_fields [(''cancellationRequested'', JBool True)])
          (orders_collection st) = (r, os)"
    by (cases "update_one (id_is oid) (set_fields [(''cancellationRequested'', JBool True)])
          (orders_collection st)")
  with Inr assms have "d' \<in> set os"
    by (simp add: request_cancellation_def final_def Let_def split: if_splits)
  from update_one_mem[OF u this] show ?thesis
    by (rule updated_order) (simp add: set_fields_single dict_get_update_same)
qed

lemma admin_update_order_status_orders:
  assumes "d' \<in> set (orders_collection (final (admin_update_order_status m order_id data st)))"
  shows "\<exists>d \<in> set (orders_collection st). fst d = fst d'
           \<and> (cancellation_requested d \<longrightarrow> cancellation_requested d')"
proof -
  from assms consider "d' \<in> set (orders_collection st)"
    | oid r v os where
      "update_one (id_is oid) (set_fields [(''status'', v)]) (orders_collection st) = (r, os)"
      "d' \<in> set os"
    by (auto simp: admin_update_order_status_def final_def Let_def
          split: json.splits sum.splits if_splits prod.splits)
  then show ?thesis
  proof cases
    case 1
    then show ?thesis by (intro kept_order[of d']) auto
  next
    case 2
    from update_one_mem[OF 2] show ?thesis
      by (rule updated_order) (simp add: set_fields_single dict_get_update_other)
  qed
qed

lemma admin_delete_user_orders:
  "set (orders_collection (final (admin_delete_user m user_id st)))
     \<subseteq> set (orders_collection st)"
  by (auto simp: admin_delete_user_def final_def Let_def delete_many_def
        split: sum.splits option.splits if_splits prod.splits)

lemma handle_orders:
  assumes "d' \<in> set (orders_collection (final (handle e req st)))"
  shows "(\<exists>d \<in> set (orders_collection st). fst d = fst d'
            \<and> (cancellation_requested d \<longrightarrow> cancellation_requested d'))
       \<or> ((\<exists>data. req = CreateOrder data) \<and> fst d' = new_id e
            \<and> dict_get (snd d') ''cancellationRequested'' = JBool False)"
proof (cases req)
  case (Register data)
  with assms have "d' \<in> set (orders_collection st)" by (simp add: register_orders)
  then show ?thesis by (intro disjI1 kept_order[of d']) auto
next
  case (Login data)
  with assms have "d' \<in> set (orders_collection st)" by (simp add: login_orders)
  then show ?thesis by (intro disjI1 kept_order[of d']) auto
next
  case GetProducts
  with assms have "d' \<in> set (orders_collection st)" by (simp add: get_products_def final_def)
  then show ?thesis by (intro disjI1 kept_order[of d']) auto
next
  case (UpdateStock p data)
  with assms have "d' \<in> set (orders_collection st)" by (simp add: update_stock_orders)
  then show ?thesis by (intro disjI1 kept_order[of d']) auto
next
  case (CreateOrder data)
  let ?r = "create_order (store e) (utcnow_isoformat e) (new_id e) data st"
  from CreateOrder assms have mem: "d' \<in> set (orders_collection (final ?r))" by simp
  from create_order_orders[of "store e" "utcnow_isoformat e" "new_id e" data st] show ?thesis
  proof
    assume "orders_collection (final ?r) = orders_collection st"
    with mem have "d' \<in> set (orders_collection st)" by simp
    then show ?thesis by (intro disjI1 kept_order[of d']) auto
  next
    assume "\<exists>order. orders_collection (final ?r) = orders_collection st @ [(new_id e, order)]
                \<and> dict_get order ''cancellationRequested'' = JBool False"
    then obtain order where
      o: "orders_collection (final ?r) = orders_collection st @ [(new_id e, order)]"
        "dict_get order ''cancellationRequested'' = JBool False"
      by blast
    from mem o(1) consider "d' \<in> set (orders_collection st)" | "d' = (new_id e, order)"
      by auto
    then show ?thesis
    proof cases
      case 1
      then show ?thesis by (intro disjI1 kept_order[of d']) auto
    next
      case 2
      with o(2) CreateOrder show ?thesis by simp
    qed
  qed
next
  case (GetOrders em)
  with assms have "d' \<in> set (orders_collection st)" by (simp add: get_orders_def final_def)
  then show ?thesis by (intro disjI1 kept_order[of d']) auto
next
  case (RequestCancellation order_id)
  with assms show ?thesis using request_cancellation_orders[of d' order_id st] by simp
next
  case AdminGetOrders
  with assms have "d' \<in> set (orders_collection st)" by (simp add: admin_get_orders_def final_def)
  then show ?thesis by (intro disjI1 kept_order[of d']) auto
next
  case (AdminUpdateOrderStatus order_id data)
  with assms show ?thesis
    using admin_update_order_status_orders[of d' "store e" order_id data st] by simp
next
  case (GetCart em)
  with assms have "d' \<in> set (orders_collection st)"
    by (simp add: get_cart_def final_def Let_def split: option.splits if_splits)
  then show ?thesis by (intro disjI1 kept_order[of d']) auto
next
  case (SaveCart data)
  with assms have "d' \<in> set (orders_collection st)" by (simp add: save_cart_orders)
  then show ?thesis by (intro disjI1 kept_order[of d']) auto
next
  case AdminGetUsers
  with assms have "d' \<in> set (orders_collection st)" by (simp add: admin_get_users_def final_def)
  then show ?thesis by (intro disjI1 kept_order[of d']) auto
next
  case (AdminDeleteUser user_id)
  with assms admin_delete_user_orders[of "store e" user_id st]
  have "d' \<in> set (orders_collection st)" by auto
  then show ?thesis by (intro disjI1 kept_order[of d']) auto
next
  case (UpdateAdminCredentials data)
  with assms have "d' \<in> set (orders_collection st)"
    by (simp add: update_admin_credentials_orders)
  then show ?thesis by (intro disjI1 kept_order[of d']) auto
qed

text \<open>Over a sequence of requests, an id whose orders are all flagged keeps that property.\<close>

lemma run_keeps_requested:
  assumes "\<forall>d \<in> set (orders_collection st). fst d = i \<longrightarrow> cancellation_requested d"
      and "\<forall>(e, r) \<in> set steps. (\<exists>data. r = CreateOrder data) \<longrightarrow> new_id e \<noteq> i"
  shows "\<forall>d \<in> set (orders_collection (run steps st)). fst d = i \<longrightarrow> cancellation_requested d"
  using assms
proof (induction steps arbitrary: st)
  case Nil
  then show ?case by simp
next
  case (Cons step steps)
  obtain e r where step: "step = (e, r)" by (cases step)
  from Cons.prems(2) step have fresh: "(\<exists>data. r = CreateOrder data) \<longrightarrow> new_id e \<noteq> i"
    and rest: "\<forall>(e, r) \<in> set steps. (\<exists>data. r = CreateOrder data) \<longrightarrow> new_id e \<noteq> i"
    by auto
  have inv: "\<forall>d \<in> set (orders_collection (final (handle e r st))).
               fst d = i \<longrightarrow> cancellation_requested d"
  proof (intro ballI impI)
    fix d'
    assume d': "d' \<in> set (orders_collection (final (handle e r st)))" and id: "fst d' = i"
    from handle_orders[OF d'] fresh id Cons.prems(1)
    show "cancellation_requested d'" by auto
  qed
  from Cons.IH[OF inv rest] step show ?case by simp
qed

lemma request_cancellation_found:
  assumes "ObjectId order_id = Inr oid"
      and "orders_collection st = os1 @ d # os2"
      and "fst d = oid"
      and "\<forall>x \<in> set os1. fst x \<noteq> oid"
  shows "request_cancellation order_id st =
           Inr ((message_body ''Cancellation requested successfully'', 200),
                st\<lparr>orders_collection :=
                      os1 @ (fst d, AList.update ''cancellationRequested'' (JBool True) (snd d))
                          # os2\<rparr>)"
proof -
  have nomatch: "\<forall>x \<in> set os1. \<not> id_is oid x" and match: "id_is oid d"
    using assms(3,4) by (simp_all add: id_is_def)
  show ?thesis
    using update_one_found[OF nomatch match]
    by (simp add: request_cancellation_def assms(1,2) set_fields_single)
qed

text \<open>
  Claim C9. (1) One request: every order present after it was present before with the
  same id, and has \<open>cancellationRequested\<close> true if it had it before, or it is the
  order just created, under the new id and with \<open>cancellationRequested\<close> false.
  (2) A sequence of requests: when the orders with id \<open>i\<close> have
  \<open>cancellationRequested\<close> true and the store gives no new order the id \<open>i\<close>,
  every order with id \<open>i\<close> that remains after the sequence has it true.
  (3) \<open>request_cancellation\<close> for the id of an order \<open>d\<close> answers 200, sets
  \<open>cancellationRequested\<close> of \<open>d\<close> to true, leaves its other fields and the other
  orders as they were, and a second call answers 200 and changes nothing.
  (4) What (1) says of the state that a request returns holds of the state that it
  leaves when an exception escapes, too.
\<close>

theorem cancellation_requested_monotonic:
  "(\<forall>resp st' d'. handle e req st = Inr (resp, st') \<and> d' \<in> set (orders_collection st') \<longrightarrow>
       (\<exists>d \<in> set (orders_collection st). fst d = fst d'
            \<and> (cancellation_requested d \<longrightarrow> cancellation_requested d'))
     \<or> ((\<exists>data. req = CreateOrder data) \<and> fst d' = new_id e
          \<and> dict_get (snd d') ''cancellationRequested'' = JBool False))
 \<and> ((\<forall>d \<in> set (orders_collection st). fst d = i \<longrightarrow> cancellation_requested d)
      \<and> (\<forall>(e, r) \<in> set steps. (\<exists>data. r = CreateOrder data) \<longrightarrow> new_id e \<noteq> i) \<longrightarrow>
      (\<forall>d \<in> set (orders_collection (run steps st)). fst d = i \<longrightarrow> cancellation_requested d))
 \<and> (\<forall>oid d. ObjectId order_id = Inr oid
        \<and> find_one (id_is oid) (orders_collection st) = Some d \<longrightarrow>
      (\<exists>st' d' os1 os2.
          request_cancellation order_id st =
            Inr ((message_body ''Cancellation requested successfully'', 200), st')
        \<and> orders_collection st = os1 @ d # os2
        \<and> orders_collection st' = os1 @ d' # os2
        \<and> fst d' = fst d
        \<and> cancellation_requested d'
        \<and> (\<forall>k. k \<noteq> ''cancellationRequested'' \<longrightarrow> map_of (snd d') k = map_of (snd d) k)
        \<and> find_one (id_is oid) (orders_collection st') = Some d'
        \<and> request_cancellation order_id st' =
            Inr ((message_body ''Cancellation requested successfully'', 200), st')))
 \<and> (\<forall>d' \<in> set (orders_collection (final (handle e req st))).
       (\<exists>d \<in> set (orders_collection st). fst d = fst d'
            \<and> (cancellation_requested d \<longrightarrow> cancellation_requested d'))
     \<or> ((\<exists>data. req = CreateOrder data) \<and> fst d' = new_id e
          \<and> dict_get (snd d') ''cancellationRequested'' = JBool False))"
proof (intro conjI allI impI)
  fix resp st' d'
  assume "handle e req st = Inr (resp, st') \<and> d' \<in> set (orders_collection st')"
  then show "(\<exists>d \<in> set (orders_collection st). fst d = fst d'
            \<and> (cancellation_requested d \<longrightarrow> cancellation_requested d'))
     \<or> ((\<exists>data. req = CreateOrder data) \<and> fst d' = new_id e
          \<and> dict_get (snd d') ''cancellationRequested'' = JBool False)"
    using handle_orders[of d' e req st] by (auto simp: final_def)
next
  assume "(\<forall>d \<in> set (orders_collection st). fst d = i \<longrightarrow> cancellation_requested d)
      \<and> (\<forall>(e, r) \<in> set steps. (\<exists>data. r = CreateOrder data) \<longrightarrow> new_id e \<noteq> i)"
  then show "\<forall>d \<in> set (orders_collection (run steps st)). fst d = i \<longrightarrow> cancellation_requested d"
    using run_keeps_requested[of st i steps] by blast
next
  fix oid d
  assume a: "ObjectId order_id = Inr oid \<and> find_one (id_is oid) (orders_collection st) = Some d"
  then have valid: "ObjectId order_id = Inr oid"
    and found: "find_one (id_is oid) (orders_collection st) = Some d"
    by simp_all
  from find_one_split[OF found] obtain os1 os2 where
    split: "orders_collection st = os1 @ d # os2" "fst d = oid" "\<forall>x \<in> set os1. fst x \<noteq> oid"
    unfolding id_is_def by blast
  define d' where "d' = (fst d, AList.update ''cancellationRequested'' (JBool True) (snd d))"
  define st' where "st' = st\<lparr>orders_collection := os1 @ d' # os2\<rparr>"
  have run1: "request_cancellation order_id st =
      Inr ((message_body ''Cancellation requested successfully'', 200), st')"
    using request_cancellation_found[OF valid split] by (simp add: st'_def d'_def)
  have flag: "cancellation_requested d'"
    by (simp add: d'_def dict_get_update_same)
  have other: "\<forall>k. k \<noteq> ''cancellationRequested'' \<longrightarrow> map_of (snd d') k = map_of (snd d) k"
    by (simp add: d'_def update_conv')
  have id': "fst d' = oid"
    using split(2) by (simp add: d'_def)
  have split': "orders_collection st' = os1 @ d' # os2"
    by (simp add: st'_def)
  have found': "find_one (id_is oid) (orders_collection st') = Some d'"
    unfolding split' using split(3) id' by (intro find_one_append_match) (simp_all add: id_is_def)
  have same: "(fst d', AList.update ''cancellationRequested'' (JBool True) (snd d')) = d'"
    by (simp add: d'_def AList.update_conv' map_of_eq_Some_iff AList.update_triv)
  have run2: "request_cancellation order_id st' =
      Inr ((message_body ''Cancellation requested successfully'', 200), st')"
    using request_cancellation_found[OF valid split' id' split(3)]
    by (simp add: same st'_def)
  from run1 split(1) split' split(2) id' flag other found' run2
  show "\<exists>st' d' os1 os2.
          request_cancellation order_id st =
            Inr ((message_body ''Cancellation requested successfully'', 200), st')
        \<and> orders_collection st = os1 @ d # os2
        \<and> orders_collection st' = os1 @ d' # os2
        \<and> fst d' = fst d
        \<and> cancellation_requested d'
        \<and> (\<forall>k. k \<noteq> ''cancellationRequested'' \<longrightarrow> map_of (snd d') k = map_of (snd d) k)
        \<and> find_one (id_is oid) (orders_collection st') = Some d'
        \<and> request_cancellation order_id st' =
            Inr ((message_body ''Cancellation requested successfully'', 200), st')"
    by (intro exI[of _ st'] exI[of _ d'] exI[of _ os1] exI[of _ os2]) simp
next
  show "\<forall>d' \<in> set (orders_collection (final (handle e req st))).
       (\<exists>d \<in> set (orders_collection st). fst d = fst d'
            \<and> (cancellation_requested d \<longrightarrow> cancellation_requested d'))
     \<or> ((\<exists>data. req = CreateOrder data) \<and> fst d' = new_id e
          \<and> dict_get (snd d') ''cancellationRequested'' = JBool False)"
    by (intro ballI handle_orders)
qed

text \<open>
  In the small store: Bob's order, flagged already, stays flagged through the sequence
  of requests and is still there at its end; cancelling Ann's order flags it, and
  cancelling it again changes nothing.
\<close>

theorem cancellation_requested_monotonic_witness:
  "handle ex_env (RequestCancellation ''0000000000000000000000c2'') ex_state
     = Inr ((message_body ''Cancellation requested successfully'', 200), ex_state)
   \<and> ex_order_bob \<in> set (orders_collection ex_state)
   \<and> ((\<exists>d \<in> set (orders_collection ex_state). fst d = fst ex_order_bob
            \<and> (cancellation_requested d \<longrightarrow> cancellation_requested ex_order_bob))
       \<or> ((\<exists>data. RequestCancellation ''0000000000000000000000c2'' = CreateOrder data)
            \<and> fst ex_order_bob = new_id ex_env
            \<and> dict_get (snd ex_order_bob) ''cancellationRequested'' = JBool False))
   \<and> \<not> (\<exists>d \<in> set (orders_collection ex_state).
            fst d = Oid ''0000000000000000000000c2'' \<and> \<not> cancellation_requested d)
   \<and> list_all (\<lambda>step. new_id (fst step) \<noteq> Oid ''0000000000000000000000c2'') ex_steps
   \<and> \<not> (\<exists>d \<in> set (orders_collection (run ex_steps ex_state)).
            fst d = Oid ''0000000000000000000000c2'' \<and> \<not> cancellation_requested d)
   \<and> (\<exists>d \<in> set (orders_collection (run ex_steps ex_state)).
          fst d = Oid ''0000000000000000000000c2'')
   \<and> ObjectId ''0000000000000000000000c1'' = Inr (Oid ''0000000000000000000000c1'')
   \<and> find_one (id_is (Oid ''0000000000000000000000c1'')) (orders_collection ex_state)
       = Some ex_order_ann
   \<and> \<not> cancellation_requested ex_order_ann
   \<and> (\<exists>st' d'.
         request_cancellation ''0000000000000000000000c1'' ex_state =
           Inr ((message_body ''Cancellation requested successfully'', 200), st')
       \<and> find_one (id_is (Oid ''0000000000000000000000c1'')) (orders_collection st') = Some d'
       \<and> cancellation_requested d'
       \<and> request_cancellation ''0000000000000000000000c1'' st' =
           Inr ((message_body ''Cancellation requested successfully'', 200), st'))"
proof -
  let ?c1 = "''0000000000000000000000c1''"
  let ?c2 = "''0000000000000000000000c2''"
  note t = cancellation_requested_monotonic
  have h: "handle ex_env (RequestCancellation ?c2) ex_state
     = Inr ((message_body ''Cancellation requested successfully'', 200), ex_state)"
    by (simp add: request_cancellation_def oid_defs update_one_def find_one_def id_is_def
          set_fields_def ex_defs)
  have m: "ex_order_bob \<in> set (orders_collection ex_state)"
    by (simp add: ex_state_def)
  have c1: "(\<exists>d \<in> set (orders_collection ex_state). fst d = fst ex_order_bob
            \<and> (cancellation_requested d \<longrightarrow> cancellation_requested ex_order_bob))
       \<or> ((\<exists>data. RequestCancellation ?c2 = CreateOrder data)
            \<and> fst ex_order_bob = new_id ex_env
            \<and> dict_get (snd ex_order_bob) ''cancellationRequested'' = JBool False)"
    by (rule t[of ex_env "RequestCancellation ?c2" ex_state _ _ ?c1, THEN conjunct1, rule_format,
               OF conjI[OF h m]])
  have flagged: "\<forall>d \<in> set (orders_collection ex_state).
                   fst d = Oid ?c2 \<longrightarrow> cancellation_requested d"
    by (simp add: ex_defs dict_get_def)
  have fresh: "\<forall>(e, r) \<in> set ex_steps. (\<exists>data. r = CreateOrder data) \<longrightarrow> new_id e \<noteq> Oid ?c2"
    by (simp add: ex_steps_def ex_env_def)
  have kept: "\<forall>d \<in> set (orders_collection (run ex_steps ex_state)).
                fst d = Oid ?c2 \<longrightarrow> cancellation_requested d"
    by (rule t[of ex_env GetProducts ex_state "Oid ?c2" ex_steps ?c1, THEN conjunct2,
               THEN conjunct1, THEN mp, OF conjI[OF flagged fresh]])
  have h2: "\<not> (\<exists>d \<in> set (orders_collection ex_state).
            fst d = Oid ?c2 \<and> \<not> cancellation_requested d)"
    using flagged by blast
  have h3: "list_all (\<lambda>step. new_id (fst step) \<noteq> Oid ?c2) ex_steps"
    by (simp add: ex_steps_def ex_env_def)
  have c2: "\<not> (\<exists>d \<in> set (orders_collection (run ex_steps ex_state)).
            fst d = Oid ?c2 \<and> \<not> cancellation_requested d)"
    using kept by blast
  have there: "\<exists>d \<in> set (orders_collection (run ex_steps ex_state)). fst d = Oid ?c2"
    by (simp add: ex_steps_def ex_env_def admin_update_order_status_def create_order_def
          request_cancellation_def admin_delete_user_def Let_def dict_get_def oid_defs
          update_one_def delete_one_def delete_many_def find_one_def id_is_def field_is_def
          set_fields_def insert_one_def ex_order_body_def ex_items_def ex_defs final_def
          order_fields_missing_def order_doc_def query_scalar ex_filter_ok ex_writable
          stored_query_def)
  have v: "ObjectId ?c1 = Inr (Oid ?c1)"
    by (simp add: oid_defs)
  have f: "find_one (id_is (Oid ?c1)) (orders_collection ex_state) = Some ex_order_ann"
    by (simp add: ex_defs find_one_def id_is_def)
  have n: "\<not> cancellation_requested ex_order_ann"
    by (simp add: ex_order_ann_def dict_get_def)
  from t[of ex_env GetProducts ex_state "Oid ?c2" ex_steps ?c1, THEN conjunct2, THEN conjunct2,
         THEN conjunct1, rule_format, OF conjI[OF v f]]
  obtain st' d' where
    r1: "request_cancellation ?c1 ex_state =
           Inr ((message_body ''Cancellation requested successfully'', 200), st')"
    and f': "find_one (id_is (Oid ?c1)) (orders_collection st') = Some d'"
    and c': "cancellation_requested d'"
    and r2: "request_cancellation ?c1 st' =
           Inr ((message_body ''Cancellation requested successfully'', 200), st')"
    by blast
  have c3: "\<exists>st' d'.
         request_cancellation ?c1 ex_state =
           Inr ((message_body ''Cancellation requested successfully'', 200), st')
       \<and> find_one (id_is (Oid ?c1)) (orders_collection st') = Some d'
       \<and> cancellation_requested d'
       \<and> request_cancellation ?c1 st' =
           Inr ((message_body ''Cancellation requested successfully'', 200), st')"
    using r1 f' c' r2 by (intro exI[of _ st'] exI[of _ d'] conjI)
  from h m c1 h2 h3 c2 there v f n c3 show ?thesis by (intro conjI)
qed


end
